theory Spec2Isabelle
  imports Main
begin

section \<open>Values shared by the whole development\<close>

text \<open>
  Exceptions of the Python code are values of \<open>error\<close>; a function that may raise returns
  \<open>error + 'a\<close> with \<open>Inl\<close> for the exception.  When a call raises, its result does not
  describe the store any more.
\<close>

datatype error =
    ValidationError string
  | DoesNotExist
  | MultipleObjectsReturned
  | DatabaseError
  | IntegrityError
  | KeyError string
  | ValueError string

text \<open>
  JSON values, as \<open>json.dumps\<close> receives them.  A Python \<open>dict\<close> literal keeps the order
  in which its keys are written.
\<close>

datatype json =
    JNull
  | JBool bool
  | JInt int
  | JStr string
  | JList "json list"
  | JObj "(string \<times> json) list"

type_synonym message = "(string \<times> json) list"

text \<open>\<open>timezone.now().isoformat()\<close>: the clock is read outside the model and its text handed in.\<close>

type_synonym isotime = string

text \<open>\<open>str(n)\<close> of a non-negative integer, as the f-strings of the source print an id.\<close>

definition digit_char :: "nat \<Rightarrow> char" where
  "digit_char d = char_of (48 + d)"

fun str_nat :: "nat \<Rightarrow> string" where
  "str_nat n = (if n < 10 then [digit_char n] else str_nat (n div 10) @ [digit_char (n mod 10)])"

declare str_nat.simps [simp del]

section \<open>Rows of the database\<close>

text \<open>\<open>accounts.models.User\<close>: the fields the pipeline reads or writes.\<close>

record user =
  user_id :: nat
  username :: string
  reputation :: int
  role :: string
  is_suspended :: bool

text \<open>\<open>questions.models.Question\<close>; foreign keys hold the primary key of the row they name.\<close>

record question =
  question_id :: nat
  question_title :: string
  question_author :: nat
  accepted_answer :: "nat option"
  is_answered :: bool

text \<open>\<open>answers.models.Answer\<close>.\<close>

record answer =
  answer_id :: nat
  answer_question :: nat
  answer_author :: nat
  is_accepted :: bool

text \<open>
  \<open>ContentType.objects.get_for_model\<close>: the two models that carry a
  \<open>GenericRelation("votes.Vote")\<close>.
\<close>

datatype content_type = QuestionModel | AnswerModel

text \<open>\<open>votes.models.Vote\<close>.\<close>

record vote =
  v_id :: nat
  v_user :: nat
  v_value :: int
  v_content_type :: content_type
  v_object_id :: nat

text \<open>\<open>core.models.ReputationTransaction\<close> with the \<open>version\<close> column of \<open>AuditModel\<close>.\<close>

record reputation_transaction =
  rt_id :: nat
  rt_user :: nat
  rt_transaction_type :: string
  rt_amount :: int
  rt_description :: string
  rt_content_type_id :: nat
  rt_object_id :: nat
  rt_balance_after :: int
  rt_version :: nat

text \<open>\<open>notifications.models.Notification\<close>.\<close>

record notification =
  n_id :: nat
  n_recipient :: nat
  n_sender :: "nat option"
  n_notification_type :: string
  n_title :: string
  n_message :: string
  n_is_read :: bool
  n_related_question_id :: "nat option"
  n_related_answer_id :: "nat option"
  n_created_at :: isotime

text \<open>
  The store: the tables, the process-wide cache and the channel layer.  Tables whose rows are
  only reached by primary key are maps; tables that are filtered, counted or read in creation
  order are lists in creation order.  \<open>groups\<close> holds the pairs (group, channel) that
  \<open>group_add\<close> registered; \<open>delivered\<close> holds, oldest first, the pairs (channel, message)
  that \<open>group_send\<close> put on a channel.
  \<open>content_type_ids\<close> holds the primary keys of the rows of Django's table of content
  types, which the code never writes.
  Two constraints that the models declare and the database enforces are part of the writes
  below, each raising \<open>IntegrityError\<close>: the \<open>CHECK\<close> that a user's reputation is at
  least -1000, and the foreign keys of a reputation transaction to its user and to its
  content type.  The uniqueness of primary keys and of (user, content type, object) among
  votes is a property of the stores the theorems speak about, stated where it is needed.
  Cache entries do not expire.  A related object of which the code takes only the primary key, or which it only
  compares with another object, stands for the key its foreign key column holds; a related
  object of which another field is read is fetched from the store, and the fetch raises
  \<open>DoesNotExist\<close> when the row is missing.
\<close>

record db =
  users :: "nat \<rightharpoonup> user"
  questions :: "nat \<rightharpoonup> question"
  answers :: "nat \<rightharpoonup> answer"
  votes :: "vote list"
  reputation_transactions :: "reputation_transaction list"
  notifications :: "notification list"
  cache :: "string \<rightharpoonup> int"
  groups :: "(string \<times> string) list"
  delivered :: "(string \<times> message) list"
  content_type_ids :: "nat set"

text \<open>An auto-increment primary key: one more than the largest key in the table.\<close>

definition next_id :: "nat list \<Rightarrow> nat" where
  "next_id ids = Suc (foldr max ids 0)"

section \<open>Channel layer\<close>

text \<open>\<open>channel_layer.group_add(group, channel)\<close>.\<close>

definition group_add :: "string \<Rightarrow> string \<Rightarrow> db \<Rightarrow> db" where
  "group_add g c s = (if (g, c) \<in> set (groups s) then s else s\<lparr>groups := groups s @ [(g, c)]\<rparr>)"

text \<open>\<open>channel_layer.group_send(group, message)\<close>: one copy for each channel of the group.\<close>

definition group_members :: "db \<Rightarrow> string \<Rightarrow> string list" where
  "group_members s g = map snd (filter (\<lambda>gc. fst gc = g) (groups s))"

definition group_send :: "string \<Rightarrow> message \<Rightarrow> db \<Rightarrow> db" where
  "group_send g m s = s\<lparr>delivered := delivered s @ map (\<lambda>c. (c, m)) (group_members s g)\<rparr>"

section \<open>Notification store\<close>

text \<open>
  \<open>Notification.objects.filter(recipient=user, is_read=False)\<close>, and its \<open>count()\<close> as
  \<open>UnreadNotificationsAPIView.get\<close> and \<open>NotificationConsumer.get_unread_count\<close> take it.
\<close>

definition unread_notifications :: "db \<Rightarrow> nat \<Rightarrow> notification list" where
  "unread_notifications s uid =
     filter (\<lambda>n. n_recipient n = uid \<and> \<not> n_is_read n) (notifications s)"

definition get_unread_count :: "db \<Rightarrow> nat \<Rightarrow> nat" where
  "get_unread_count s uid = length (unread_notifications s uid)"

text \<open>
  \<open>MarkAllReadAPIView.post\<close>: \<open>unread_notifications.update(is_read=True)\<close> writes every
  row of the queryset and returns how many rows it matched; the response carries that number
  as \<open>marked_read\<close>.
\<close>

definition queryset_update_is_read :: "nat \<Rightarrow> notification list \<Rightarrow> notification list" where
  "queryset_update_is_read uid ns =
     map (\<lambda>n. if n_recipient n = uid \<and> \<not> n_is_read n then n\<lparr>n_is_read := True\<rparr> else n) ns"

definition mark_all_read :: "nat \<Rightarrow> db \<Rightarrow> nat \<times> db" where
  "mark_all_read uid s =
     (let unread = unread_notifications s uid;
          count_updated = length unread
      in (count_updated, s\<lparr>notifications := queryset_update_is_read uid (notifications s)\<rparr>))"

text \<open>
  \<open>NotificationSerializer(notification).data\<close>, the fields backed by a column, and
  \<open>sender_username\<close> when the sender's row is there.  The three method fields
  (\<open>sender_avatar\<close>, \<open>time_ago\<close>, \<open>is_recent\<close>) read the file storage and the clock and
  are left out of the payload.
\<close>

definition json_of_id :: "nat option \<Rightarrow> json" where
  "json_of_id x = (case x of None \<Rightarrow> JNull | Some i \<Rightarrow> JInt (int i))"

definition NotificationSerializer_data :: "db \<Rightarrow> notification \<Rightarrow> json" where
  "NotificationSerializer_data s n =
     JObj ([(''id'', JInt (int (n_id n)))] @
           (case n_sender n of
              None \<Rightarrow> []
            | Some sid \<Rightarrow> (case users s sid of
                             None \<Rightarrow> []
                           | Some u \<Rightarrow> [(''sender_username'', JStr (username u))])) @
           [(''notification_type'', JStr (n_notification_type n)),
            (''title'', JStr (n_title n)),
            (''message'', JStr (n_message n)),
            (''is_read'', JBool (n_is_read n)),
            (''related_question_id'', json_of_id (n_related_question_id n)),
            (''related_answer_id'', json_of_id (n_related_answer_id n)),
            (''created_at'', JStr (n_created_at n))])"

text \<open>\<open>notifications.utils.send_notification_to_user\<close>; the channel layer is configured.\<close>

definition send_notification_to_user :: "nat \<Rightarrow> notification \<Rightarrow> db \<Rightarrow> db" where
  "send_notification_to_user uid n s =
     (let group_name = ''notifications_'' @ str_nat uid
      in group_send group_name
           [(''type'', JStr ''notification_message''),
            (''notification'', NotificationSerializer_data s n)] s)"

text \<open>
  \<open>notifications.utils.create_notification\<close>.  Of the recipient and the sender only the
  primary key is stored; \<open>created_at\<close> is \<open>auto_now_add\<close>.
\<close>

definition create_notification ::
  "isotime \<Rightarrow> nat \<Rightarrow> nat option \<Rightarrow> string \<Rightarrow> string \<Rightarrow> string \<Rightarrow> nat option \<Rightarrow> nat option \<Rightarrow> db
     \<Rightarrow> notification \<times> db" where
  "create_notification now recipient sender notification_type title message
       related_question_id related_answer_id s =
     (let n = \<lparr>n_id = next_id (map n_id (notifications s)),
               n_recipient = recipient,
               n_sender = sender,
               n_notification_type = notification_type,
               n_title = title,
               n_message = message,
               n_is_read = False,
               n_related_question_id = related_question_id,
               n_related_answer_id = related_answer_id,
               n_created_at = now\<rparr>;
          s1 = s\<lparr>notifications := notifications s @ [n]\<rparr>
      in (n, send_notification_to_user recipient n s1))"

section \<open>Vote toggle engine\<close>

text \<open>The object a vote is cast on: an instance of \<open>Question\<close> or of \<open>Answer\<close>.\<close>

datatype target = TQuestion question | TAnswer answer

fun get_for_model :: "target \<Rightarrow> content_type" where
  "get_for_model (TQuestion q) = QuestionModel"
| "get_for_model (TAnswer a) = AnswerModel"

fun target_id :: "target \<Rightarrow> nat" where
  "target_id (TQuestion q) = question_id q"
| "target_id (TAnswer a) = answer_id a"

fun target_author :: "target \<Rightarrow> nat" where
  "target_author (TQuestion q) = question_author q"
| "target_author (TAnswer a) = answer_author a"

text \<open>
  \<open>BusinessRuleValidator.validate_vote_eligibility\<close>.  Both models have an \<open>author\<close>;
  model instances are equal when their primary keys are.
\<close>

definition validate_vote_eligibility :: "user \<Rightarrow> target \<Rightarrow> error + unit" where
  "validate_vote_eligibility usr target_object =
     (if target_author target_object = user_id usr
      then Inl (ValidationError ''You cannot vote on your own content.'')
      else Inr ())"

text \<open>
  \<open>Vote.content_object\<close>: the generic foreign key fetches the row named by the content type
  and the object id, and is \<open>None\<close> when there is no such row.
\<close>

definition content_object_of :: "db \<Rightarrow> content_type \<Rightarrow> nat \<Rightarrow> target option" where
  "content_object_of s ct oid =
     (case ct of
        QuestionModel \<Rightarrow> map_option TQuestion (questions s oid)
      | AnswerModel \<Rightarrow> map_option TAnswer (answers s oid))"

text \<open>
  \<open>notifications.utils.notify_vote\<close>.  An answer is the object that has a \<open>question\<close>;
  \<open>content_object.question.id\<close> is the foreign key the answer holds.
\<close>

definition dquote :: string where
  "dquote = [CHR 0x22]"

definition voted_word :: "int \<Rightarrow> string" where
  "voted_word vote_value = (if vote_value = 1 then ''upvoted'' else ''downvoted'')"

definition notify_vote :: "isotime \<Rightarrow> target option \<Rightarrow> user \<Rightarrow> int \<Rightarrow> db \<Rightarrow> db" where
  "notify_vote now content_object voter vote_value s =
     (case content_object of
        None \<Rightarrow> s
      | Some (TAnswer a) \<Rightarrow>
          if answer_author a \<noteq> user_id voter then
            snd (create_notification now (answer_author a) (Some (user_id voter))
                   (''answer_'' @ voted_word vote_value)
                   (''Your answer was '' @ voted_word vote_value)
                   (username voter @ '' '' @ voted_word vote_value @ '' your answer'')
                   (Some (answer_question a)) (Some (answer_id a)) s)
          else s
      | Some (TQuestion q) \<Rightarrow>
          if question_author q \<noteq> user_id voter then
            snd (create_notification now (question_author q) (Some (user_id voter))
                   (''question_'' @ voted_word vote_value)
                   (''Your question was '' @ voted_word vote_value)
                   (username voter @ '' '' @ voted_word vote_value @ '' your question '' @ dquote
                      @ question_title q @ dquote)
                   (Some (question_id q)) None s)
          else s)"

text \<open>
  \<open>cls.objects.get(user=..., content_type=..., object_id=...)\<close>: the one matching row,
  \<open>DoesNotExist\<close> without one, \<open>MultipleObjectsReturned\<close> with several.
\<close>

definition vote_matches :: "nat \<Rightarrow> content_type \<Rightarrow> nat \<Rightarrow> vote \<Rightarrow> bool" where
  "vote_matches uid ct oid v \<longleftrightarrow> v_user v = uid \<and> v_content_type v = ct \<and> v_object_id v = oid"

definition Vote_objects_get :: "db \<Rightarrow> nat \<Rightarrow> content_type \<Rightarrow> nat \<Rightarrow> error + vote" where
  "Vote_objects_get s uid ct oid =
     (case filter (vote_matches uid ct oid) (votes s) of
        [] \<Rightarrow> Inl DoesNotExist
      | [v] \<Rightarrow> Inr v
      | _ \<Rightarrow> Inl MultipleObjectsReturned)"

text \<open>
  \<open>cls.objects.create(...)\<close> inserts the row and sends \<open>post_save\<close> with
  \<open>created=True\<close>; the receiver \<open>vote_created\<close> of \<open>notifications.signals\<close> then calls
  \<open>notify_vote(instance.content_object, instance.user, instance.value)\<close>.
\<close>

definition Vote_objects_create ::
  "isotime \<Rightarrow> user \<Rightarrow> content_type \<Rightarrow> nat \<Rightarrow> int \<Rightarrow> db \<Rightarrow> vote \<times> db" where
  "Vote_objects_create now usr ct oid vote_value s =
     (let vote = \<lparr>v_id = next_id (map v_id (votes s)), v_user = user_id usr,
                  v_value = vote_value, v_content_type = ct, v_object_id = oid\<rparr>;
          s1 = s\<lparr>votes := votes s @ [vote]\<rparr>
      in (vote, notify_vote now (content_object_of s1 ct oid) usr vote_value s1))"

text \<open>
  \<open>vote.save()\<close> on a stored vote rewrites its row; \<open>post_save\<close> comes with
  \<open>created=False\<close> and \<open>vote_created\<close> does nothing.  \<open>vote.delete()\<close> removes the row.
\<close>

definition Vote_save :: "vote \<Rightarrow> db \<Rightarrow> db" where
  "Vote_save vote s = s\<lparr>votes := map (\<lambda>r. if v_id r = v_id vote then vote else r) (votes s)\<rparr>"

definition Vote_delete :: "vote \<Rightarrow> db \<Rightarrow> db" where
  "Vote_delete vote s = s\<lparr>votes := filter (\<lambda>r. v_id r \<noteq> v_id vote) (votes s)\<rparr>"

text \<open>\<open>Vote.toggle_vote\<close>: the vote it returns, or \<open>None\<close> when it removed one.\<close>

definition toggle_vote :: "isotime \<Rightarrow> user \<Rightarrow> target \<Rightarrow> int \<Rightarrow> db \<Rightarrow> error + (vote option \<times> db)" where
  "toggle_vote now usr content_object vote_value s =
     (let content_type = get_for_model content_object
      in case Vote_objects_get s (user_id usr) content_type (target_id content_object) of
           Inr vote \<Rightarrow>
             if v_value vote = vote_value then Inr (None, Vote_delete vote s)
             else (let vote' = vote\<lparr>v_value := vote_value\<rparr>
                   in Inr (Some vote', Vote_save vote' s))
         | Inl DoesNotExist \<Rightarrow>
             (case Vote_objects_create now usr content_type (target_id content_object) vote_value s of
                (vote, s') \<Rightarrow> Inr (Some vote, s'))
         | Inl e \<Rightarrow> Inl e)"

text \<open>
  The vote score.  \<open>Answer.vote_score\<close> is the sum of the values of the answer's votes, 0
  without votes; \<open>Question.vote_score\<close> is the same sum kept in the cache under
  \<open>question_<pk>_vote_score\<close>: a cached score is returned as it is, a computed one is stored.
\<close>

definition votes_on :: "db \<Rightarrow> content_type \<Rightarrow> nat \<Rightarrow> vote list" where
  "votes_on s ct oid = filter (\<lambda>v. v_content_type v = ct \<and> v_object_id v = oid) (votes s)"

definition vote_sum :: "db \<Rightarrow> content_type \<Rightarrow> nat \<Rightarrow> int" where
  "vote_sum s ct oid = sum_list (map v_value (votes_on s ct oid))"

definition Answer_vote_score :: "answer \<Rightarrow> db \<Rightarrow> int" where
  "Answer_vote_score a s = vote_sum s AnswerModel (answer_id a)"

definition Question_vote_score :: "question \<Rightarrow> db \<Rightarrow> int \<times> db" where
  "Question_vote_score q s =
     (let cache_key = ''question_'' @ str_nat (question_id q) @ ''_vote_score''
      in case cache s cache_key of
           Some score \<Rightarrow> (score, s)
         | None \<Rightarrow>
             (let score = vote_sum s QuestionModel (question_id q)
              in (score, s\<lparr>cache := (cache s)(cache_key \<mapsto> score)\<rparr>)))"

text \<open>The score the vote views put in their response after \<open>toggle_vote\<close>.\<close>

fun vote_score :: "target \<Rightarrow> db \<Rightarrow> int \<times> db" where
  "vote_score (TQuestion q) s = Question_vote_score q s"
| "vote_score (TAnswer a) s = (Answer_vote_score a s, s)"

section \<open>Ledger\<close>

text \<open>\<open>ReputationTransaction.TRANSACTION_TYPES\<close> and \<open>get_transaction_type_display\<close>.\<close>

definition TRANSACTION_TYPES :: "(string \<times> string) list" where
  "TRANSACTION_TYPES =
     [(''question_upvote'', ''Question Upvoted (+5)''),
      (''answer_upvote'', ''Answer Upvoted (+10)''),
      (''answer_accepted'', ''Answer Accepted (+15)''),
      (''question_downvote'', ''Question Downvoted (-2)''),
      (''answer_downvote'', ''Answer Downvoted (-2)''),
      (''downvote_given'', ''Downvote Given (-1)''),
      (''spam_penalty'', ''Spam Penalty (-100)''),
      (''bounty_awarded'', ''Bounty Awarded''),
      (''moderation_bonus'', ''Moderation Bonus (+100)'')]"

definition get_transaction_type_display :: "string \<Rightarrow> string" where
  "get_transaction_type_display t = (case map_of TRANSACTION_TYPES t of None \<Rightarrow> t | Some l \<Rightarrow> l)"

text \<open>\<open>str.lower()\<close> on ASCII letters, for \<open>self.__class__.__name__.lower()\<close>.\<close>

definition lower_char :: "char \<Rightarrow> char" where
  "lower_char c =
     (let n = (of_char c :: nat) in if 65 \<le> n \<and> n \<le> 90 then char_of (n + 32) else c)"

definition lower :: "string \<Rightarrow> string" where
  "lower cs = map lower_char cs"

text \<open>
  \<open>RealtimeSyncMixin.trigger_realtime_update\<close>, with the name of the class of \<open>self\<close>; the
  channel layer is configured.
\<close>

definition trigger_realtime_update :: "isotime \<Rightarrow> string \<Rightarrow> string \<Rightarrow> json \<Rightarrow> db \<Rightarrow> db" where
  "trigger_realtime_update now class_name event_type data s =
     (let group_name = lower class_name @ ''_updates''
      in group_send group_name
           [(''type'', JStr ''realtime_update''),
            (''event_type'', JStr event_type),
            (''data'', data),
            (''timestamp'', JStr now)] s)"

text \<open>
  \<open>user.save(update_fields=["reputation"])\<close>: \<open>User.save\<close> drops the cache entry
  \<open>user_<pk>\<close> and writes the one column of the row with the instance's primary key; it
  raises \<open>DatabaseError\<close> when no row has that key, and the constraint
  \<open>reputation_minimum_check\<close> of the model makes the write fail below -1000.
\<close>

definition User_save_reputation :: "user \<Rightarrow> db \<Rightarrow> error + db" where
  "User_save_reputation u s =
     (let s1 = s\<lparr>cache := (cache s)((''user_'' @ str_nat (user_id u)) := None)\<rparr>
      in case users s1 (user_id u) of
           None \<Rightarrow> Inl DatabaseError
         | Some row \<Rightarrow>
             if reputation u < - 1000 then Inl IntegrityError
             else Inr (s1\<lparr>users := (users s1)(user_id u \<mapsto> row\<lparr>reputation := reputation u\<rparr>)\<rparr>))"

text \<open>
  A \<open>ReputationTransaction\<close> instance in memory: \<open>self_pk\<close> is \<open>None\<close> until the row is
  inserted, and \<open>self_user\<close> is the \<open>User\<close> instance the caller attached, with the
  reputation that instance holds.
\<close>

record reputation_transaction_instance =
  self_pk :: "nat option"
  self_user :: user
  self_transaction_type :: string
  self_amount :: int
  self_description :: string
  self_content_type_id :: nat
  self_object_id :: nat
  self_balance_after :: int
  self_version :: nat

definition row_of_instance :: "nat \<Rightarrow> reputation_transaction_instance \<Rightarrow> reputation_transaction" where
  "row_of_instance k t =
     \<lparr>rt_id = k, rt_user = user_id (self_user t),
      rt_transaction_type = self_transaction_type t, rt_amount = self_amount t,
      rt_description = self_description t, rt_content_type_id = self_content_type_id t,
      rt_object_id = self_object_id t, rt_balance_after = self_balance_after t,
      rt_version = self_version t\<rparr>"

text \<open>
  \<open>AuditModel.save\<close>: a stored instance gets its version raised and its row rewritten (or
  inserted under its key when the row is gone); a new one is inserted under the next key.
  The row names a user and a content type by foreign keys: writing it raises
  \<open>IntegrityError\<close> when either is not the key of a row.
\<close>

definition AuditModel_save ::
  "reputation_transaction_instance \<Rightarrow> db
     \<Rightarrow> error + (reputation_transaction_instance \<times> db)" where
  "AuditModel_save t s =
     (if users s (user_id (self_user t)) = None \<or> self_content_type_id t \<notin> content_type_ids s
      then Inl IntegrityError
      else
        (case self_pk t of
           Some k \<Rightarrow>
             (let t' = t\<lparr>self_version := self_version t + 1\<rparr>;
                  row = row_of_instance k t'
              in if k \<in> set (map rt_id (reputation_transactions s))
                 then Inr (t', s\<lparr>reputation_transactions :=
                            map (\<lambda>r. if rt_id r = k then row else r) (reputation_transactions s)\<rparr>)
                 else Inr (t', s\<lparr>reputation_transactions := reputation_transactions s @ [row]\<rparr>))
         | None \<Rightarrow>
             (let k = next_id (map rt_id (reputation_transactions s));
                  t' = t\<lparr>self_pk := Some k\<rparr>
              in Inr (t', s\<lparr>reputation_transactions :=
                           reputation_transactions s @ [row_of_instance k t']\<rparr>))))"

text \<open>
  \<open>ReputationTransaction.save\<close>.  For a new transaction the code adds the amount to the
  reputation held by the attached \<open>User\<close> instance, copies the result into
  \<open>balance_after\<close>, writes it to the user's row and announces it; then the row is saved.
\<close>

definition ReputationTransaction_save ::
  "isotime \<Rightarrow> reputation_transaction_instance \<Rightarrow> db
     \<Rightarrow> error + (reputation_transaction_instance \<times> db)" where
  "ReputationTransaction_save now t s =
     (if self_pk t = None then
        (let u = (self_user t)\<lparr>reputation := reputation (self_user t) + self_amount t\<rparr>;
             t1 = t\<lparr>self_user := u, self_balance_after := reputation u\<rparr>
         in case User_save_reputation u s of
              Inl e \<Rightarrow> Inl e
            | Inr s1 \<Rightarrow>
                (let s2 = trigger_realtime_update now ''ReputationTransaction''
                            ''reputation_changed''
                            (JObj [(''user_id'', JInt (int (user_id u))),
                                   (''new_reputation'', JInt (reputation u)),
                                   (''change'', JInt (self_amount t1)),
                                   (''reason'', JStr (get_transaction_type_display
                                                        (self_transaction_type t1)))])
                            s1
                 in AuditModel_save t1 s2))
      else AuditModel_save t s)"

text \<open>
  \<open>ReputationTransaction.objects.create(user=..., ...)\<close>: a new instance with the defaults
  of the model (\<open>balance_after = 0\<close>, \<open>version = 1\<close>), saved.
\<close>

definition ReputationTransaction_objects_create ::
  "isotime \<Rightarrow> user \<Rightarrow> string \<Rightarrow> int \<Rightarrow> string \<Rightarrow> nat \<Rightarrow> nat \<Rightarrow> db
     \<Rightarrow> error + (reputation_transaction_instance \<times> db)" where
  "ReputationTransaction_objects_create now usr transaction_type amount description
       content_type_id object_id s =
     ReputationTransaction_save now
       \<lparr>self_pk = None, self_user = usr, self_transaction_type = transaction_type,
        self_amount = amount, self_description = description,
        self_content_type_id = content_type_id, self_object_id = object_id,
        self_balance_after = 0, self_version = 1\<rparr> s"

text \<open>
  A run of the ledger: new transactions saved one after the other, each at its own time; the
  run stops at the first exception.
\<close>

fun save_all :: "(isotime \<times> reputation_transaction_instance) list \<Rightarrow> db \<Rightarrow> error + db" where
  "save_all [] s = Inr s"
| "save_all ((now, t) # ts) s =
     (case ReputationTransaction_save now t s of
        Inl e \<Rightarrow> Inl e
      | Inr (t', s') \<Rightarrow> save_all ts s')"

text \<open>
  The attached \<open>User\<close> instance is in step with the store when its row is there and holds
  the reputation the instance holds.  A run is in step when every transaction of it is new
  and its user instance is in step with the store at the moment it is saved.
\<close>

definition in_step :: "db \<Rightarrow> reputation_transaction_instance \<Rightarrow> bool" where
  "in_step s t \<longleftrightarrow>
     self_pk t = None \<and>
     (case users s (user_id (self_user t)) of
        None \<Rightarrow> False
      | Some row \<Rightarrow> reputation row = reputation (self_user t))"

fun run_in_step :: "(isotime \<times> reputation_transaction_instance) list \<Rightarrow> db \<Rightarrow> bool" where
  "run_in_step [] s = True"
| "run_in_step ((now, t) # ts) s =
     (in_step s t \<and>
      (case ReputationTransaction_save now t s of
         Inl e \<Rightarrow> False
       | Inr (t', s') \<Rightarrow> run_in_step ts s'))"

text \<open>The rows of one user in creation order, and the running sums of a list of amounts.\<close>

definition transactions_of :: "db \<Rightarrow> nat \<Rightarrow> reputation_transaction list" where
  "transactions_of s uid = filter (\<lambda>r. rt_user r = uid) (reputation_transactions s)"

fun prefix_sums :: "int \<Rightarrow> int list \<Rightarrow> int list" where
  "prefix_sums b [] = []"
| "prefix_sums b (a # as) = (b + a) # prefix_sums (b + a) as"

definition stored_reputation :: "db \<Rightarrow> nat \<Rightarrow> int option" where
  "stored_reputation s uid = map_option reputation (users s uid)"

text \<open>The sum of the amounts of a user's transactions.\<close>

definition ledger_total :: "db \<Rightarrow> nat \<Rightarrow> int" where
  "ledger_total s uid = sum_list (map rt_amount (transactions_of s uid))"

section \<open>Accepting an answer\<close>

text \<open>\<open>User.is_moderator\<close>.\<close>

definition is_moderator :: "user \<Rightarrow> bool" where
  "is_moderator u \<longleftrightarrow> role u \<in> set [''moderator'', ''admin''] \<and> \<not> is_suspended u"

text \<open>
  An \<open>Answer\<close> instance in memory: its fields, and the instances cached for its two
  foreign keys.  A cache is empty (\<open>None\<close>) on an instance loaded without its relations
  and holds the related instance once the code has read or assigned it.  Reading
  \<open>answer.author\<close> or \<open>answer.question\<close> gives the cached instance, and fetches the row
  from the store (\<open>DoesNotExist\<close> when it is missing) when nothing is cached.
\<close>

record answer_instance =
  a_fields :: answer
  a_author_cache :: "user option"
  a_question_cache :: "question option"

definition get_author :: "db \<Rightarrow> answer_instance \<Rightarrow> error + user" where
  "get_author s a =
     (case a_author_cache a of
        Some u \<Rightarrow> Inr u
      | None \<Rightarrow>
          (case users s (answer_author (a_fields a)) of
             None \<Rightarrow> Inl DoesNotExist
           | Some u \<Rightarrow> Inr u))"

definition get_question :: "db \<Rightarrow> answer_instance \<Rightarrow> error + question" where
  "get_question s a =
     (case a_question_cache a of
        Some q \<Rightarrow> Inr q
      | None \<Rightarrow>
          (case questions s (answer_question (a_fields a)) of
             None \<Rightarrow> Inl DoesNotExist
           | Some q \<Rightarrow> Inr q))"

text \<open>\<open>BusinessRuleValidator.validate_answer_acceptance\<close>.\<close>

definition validate_answer_acceptance :: "db \<Rightarrow> answer_instance \<Rightarrow> user \<Rightarrow> error + unit" where
  "validate_answer_acceptance s a usr =
     (case get_question s a of
        Inl e \<Rightarrow> Inl e
      | Inr q \<Rightarrow>
          if question_author q \<noteq> user_id usr \<and> \<not> is_moderator usr
          then Inl (ValidationError ''Only question author can accept answers.'')
          else Inr ())"

text \<open>
  \<open>Answer.save(update_fields=["is_accepted"])\<close>: an accepted answer first clears the flag
  of every other accepted answer of its question, then the one column of its own row is
  written (\<open>DatabaseError\<close> without such a row).  \<open>post_save\<close> comes with \<open>created=False\<close>
  and \<open>answer_created\<close> does nothing.
\<close>

definition clear_other_accepted :: "answer \<Rightarrow> (nat \<rightharpoonup> answer) \<Rightarrow> (nat \<rightharpoonup> answer)" where
  "clear_other_accepted a tbl =
     (\<lambda>k. case tbl k of
             None \<Rightarrow> None
           | Some r \<Rightarrow>
               if answer_question r = answer_question a \<and> is_accepted r \<and> k \<noteq> answer_id a
               then Some (r\<lparr>is_accepted := False\<rparr>) else Some r)"

definition Answer_save_is_accepted :: "answer \<Rightarrow> db \<Rightarrow> error + db" where
  "Answer_save_is_accepted a s =
     (let tbl = (if is_accepted a then clear_other_accepted a (answers s) else answers s)
      in case tbl (answer_id a) of
           None \<Rightarrow> Inl DatabaseError
         | Some row \<Rightarrow>
             Inr (s\<lparr>answers := tbl(answer_id a \<mapsto> row\<lparr>is_accepted := is_accepted a\<rparr>)\<rparr>))"

text \<open>
  A \<open>Question\<close> instance in memory: its fields, its slug, the \<open>Answer\<close> instance cached
  for \<open>accepted_answer\<close> (set when the code assigns one, \<open>None\<close> on an instance as loaded),
  and the attribute \<open>_previous_accepted_answer\<close> that \<open>track_accepted_answer_changes\<close>
  sets on it.  The attribute is missing (\<open>None\<close>) on an instance that has not been saved
  yet since it was loaded; once set it holds an answer or Python's \<open>None\<close>.
\<close>

record question_instance =
  q_fields :: question
  q_slug :: string
  q_accepted_answer_cache :: "answer_instance option"
  q_previous_accepted_answer :: "nat option option"

text \<open>
  Reading \<open>instance.accepted_answer\<close>: \<open>None\<close> when the column is null, else the cached
  instance, else the row fetched from the store (\<open>DoesNotExist\<close> when it is missing).
\<close>

definition get_accepted_answer ::
  "db \<Rightarrow> question_instance \<Rightarrow> error + answer_instance option" where
  "get_accepted_answer s inst =
     (case accepted_answer (q_fields inst) of
        None \<Rightarrow> Inr None
      | Some aid \<Rightarrow>
          (case q_accepted_answer_cache inst of
             Some a \<Rightarrow> Inr (Some a)
           | None \<Rightarrow>
               (case answers s aid of
                  None \<Rightarrow> Inl DoesNotExist
                | Some row \<Rightarrow>
                    Inr (Some \<lparr>a_fields = row, a_author_cache = None,
                               a_question_cache = None\<rparr>))))"

text \<open>
  \<open>notifications.utils.notify_answer_accepted\<close>; \<open>answer.question\<close> is read for its
  author, its title and its key.
\<close>

definition notify_answer_accepted :: "isotime \<Rightarrow> answer_instance \<Rightarrow> db \<Rightarrow> error + db" where
  "notify_answer_accepted now a s =
     (case get_question s a of
        Inl e \<Rightarrow> Inl e
      | Inr q \<Rightarrow>
          Inr (snd (create_notification now (answer_author (a_fields a))
                      (Some (question_author q))
                      ''answer_accepted''
                      ''Your answer was accepted''
                      (''Your answer to '' @ dquote @ question_title q @ dquote @ '' was accepted'')
                      (Some (question_id q)) (Some (answer_id (a_fields a))) s)))"

text \<open>
  The receiver \<open>question_answer_accepted\<close> of \<open>post_save\<close>: it notifies when the instance
  has an accepted answer, has the attribute, and the attribute names another answer (or
  none).
\<close>

definition question_answer_accepted :: "isotime \<Rightarrow> question_instance \<Rightarrow> db \<Rightarrow> error + db" where
  "question_answer_accepted now inst s =
     (case get_accepted_answer s inst of
        Inl e \<Rightarrow> Inl e
      | Inr None \<Rightarrow> Inr s
      | Inr (Some a) \<Rightarrow>
          (case q_previous_accepted_answer inst of
             None \<Rightarrow> Inr s
           | Some previous \<Rightarrow>
               if previous \<noteq> Some (answer_id (a_fields a)) then notify_answer_accepted now a s
               else Inr s))"

text \<open>
  The receiver \<open>track_accepted_answer_changes\<close> of \<open>post_save\<close>: it reads the row of the
  instance back from the store, after the save, and keeps its accepted answer on the
  instance.
\<close>

definition track_accepted_answer_changes :: "question_instance \<Rightarrow> db \<Rightarrow> question_instance" where
  "track_accepted_answer_changes inst s =
     (case questions s (question_id (q_fields inst)) of
        Some previous \<Rightarrow> inst\<lparr>q_previous_accepted_answer := Some (accepted_answer previous)\<rparr>
      | None \<Rightarrow> inst\<lparr>q_previous_accepted_answer := Some None\<rparr>)"

text \<open>\<open>Question.invalidate_caches\<close>.\<close>

definition invalidate_caches :: "question_instance \<Rightarrow> db \<Rightarrow> db" where
  "invalidate_caches inst s =
     (let cache_keys =
            [''question_'' @ str_nat (question_id (q_fields inst)),
             ''question_slug_'' @ q_slug inst,
             ''author_questions_'' @ str_nat (question_author (q_fields inst)),
             ''trending_questions'',
             ''popular_questions'']
      in s\<lparr>cache := (\<lambda>k. if k \<in> set cache_keys then None else cache s k)\<rparr>)"

text \<open>
  \<open>Question.save(update_fields=["accepted_answer", "is_answered"])\<close> on a stored question.
  The slug, the search vector, the quality score and the activity time are recomputed on the
  instance but are not among the columns written.  The two columns are written to the row
  (\<open>DatabaseError\<close> without such a row); \<open>post_save\<close> then runs its receivers in the
  order \<open>notifications.signals\<close> registers them, \<open>question_answer_accepted\<close> before
  \<open>track_accepted_answer_changes\<close>; at the end the caches of the question are dropped.
\<close>

definition Question_save_accepted :: "isotime \<Rightarrow> question_instance \<Rightarrow> db
     \<Rightarrow> error + (question_instance \<times> db)" where
  "Question_save_accepted now inst s =
     (case questions s (question_id (q_fields inst)) of
        None \<Rightarrow> Inl DatabaseError
      | Some row \<Rightarrow>
          (let s1 = s\<lparr>questions := (questions s)(question_id (q_fields inst) \<mapsto>
                        row\<lparr>accepted_answer := accepted_answer (q_fields inst),
                            is_answered := is_answered (q_fields inst)\<rparr>)\<rparr>
           in case question_answer_accepted now inst s1 of
                Inl e \<Rightarrow> Inl e
              | Inr s2 \<Rightarrow>
                  (let inst' = track_accepted_answer_changes inst s2
                   in Inr (inst', invalidate_caches inst' s2))))"

text \<open>
  \<open>Question.accept_answer\<close>.  The body after the validation runs in
  \<open>transaction.atomic()\<close>: an exception leaves the tables as they were.  The user credited
  is the instance that \<open>answer.author\<close> gives.  The transaction is created with the
  answer's primary key both as \<open>content_type_id\<close> and as \<open>object_id\<close>, as the code
  passes them.
\<close>

definition accept_answer ::
  "isotime \<Rightarrow> question_instance \<Rightarrow> answer_instance \<Rightarrow> user \<Rightarrow> db
     \<Rightarrow> error + (question_instance \<times> db)" where
  "accept_answer now self a usr s =
     (case validate_answer_acceptance s a usr of
        Inl e \<Rightarrow> Inl e
      | Inr _ \<Rightarrow>
          (case (case get_accepted_answer s self of
                   Inl e \<Rightarrow> Inl e
                 | Inr None \<Rightarrow> Inr s
                 | Inr (Some prev) \<Rightarrow>
                     Answer_save_is_accepted ((a_fields prev)\<lparr>is_accepted := False\<rparr>) s) of
             Inl e \<Rightarrow> Inl e
           | Inr s1 \<Rightarrow>
               (let a1 = a\<lparr>a_fields := (a_fields a)\<lparr>is_accepted := True\<rparr>\<rparr>
                in case Answer_save_is_accepted (a_fields a1) s1 of
                     Inl e \<Rightarrow> Inl e
                   | Inr s2 \<Rightarrow>
                       (let self1 = self\<lparr>q_fields := (q_fields self)
                                      \<lparr>accepted_answer := Some (answer_id (a_fields a1)),
                                       is_answered := True\<rparr>,
                                    q_accepted_answer_cache := Some a1\<rparr>
                        in case Question_save_accepted now self1 s2 of
                             Inl e \<Rightarrow> Inl e
                           | Inr (self2, s3) \<Rightarrow>
                               (case get_author s3 a1 of
                                  Inl e \<Rightarrow> Inl e
                                | Inr author \<Rightarrow>
                                    (case ReputationTransaction_objects_create now author
                                            ''answer_accepted'' 15
                                            (''Answer accepted for question: ''
                                               @ question_title (q_fields self2))
                                            (answer_id (a_fields a1)) (answer_id (a_fields a1))
                                            s3 of
                                       Inl e \<Rightarrow> Inl e
                                     | Inr (t, s4) \<Rightarrow> Inr (self2, s4)))))))"

section \<open>Consumers\<close>

text \<open>
  A channel-layer event is a dictionary.  \<open>event["k"]\<close> raises \<open>KeyError\<close> without the
  key; \<open>event.get("k", d)\<close> gives \<open>d\<close> instead.  The entries of a dictionary literal are
  evaluated in the order they are written, so the first missing key is the one reported.
\<close>

definition getitem :: "message \<Rightarrow> string \<Rightarrow> (json \<Rightarrow> error + 'a) \<Rightarrow> error + 'a" where
  "getitem event k f = (case map_of event k of None \<Rightarrow> Inl (KeyError k) | Some v \<Rightarrow> f v)"

definition get_or :: "message \<Rightarrow> string \<Rightarrow> json \<Rightarrow> json" where
  "get_or event k d = (case map_of event k of None \<Rightarrow> d | Some v \<Rightarrow> v)"

subsection \<open>\<open>realtime.consumers.NotificationConsumer\<close>\<close>

definition connection_established :: "isotime \<Rightarrow> message" where
  "connection_established now =
     [(''type'', JStr ''connection_established''),
      (''message'', JStr ''Connected to real-time notifications''),
      (''timestamp'', JStr now)]"

definition notification_marked_read :: "isotime \<Rightarrow> json \<Rightarrow> message" where
  "notification_marked_read now notification_id =
     [(''type'', JStr ''notification_marked_read''),
      (''notification_id'', notification_id),
      (''timestamp'', JStr now)]"

text \<open>The question id a client sends is taken to be a non-negative integer.\<close>

definition question_subscribed :: "isotime \<Rightarrow> nat \<Rightarrow> message" where
  "question_subscribed now qid =
     [(''type'', JStr ''question_subscribed''),
      (''question_id'', JInt (int qid)),
      (''message'', JStr (''Subscribed to question '' @ str_nat qid @ '' updates'')),
      (''timestamp'', JStr now)]"

definition heartbeat_response :: "isotime \<Rightarrow> message" where
  "heartbeat_response now = [(''type'', JStr ''heartbeat_response''), (''timestamp'', JStr now)]"

definition send_error :: "isotime \<Rightarrow> string \<Rightarrow> message" where
  "send_error now msg =
     [(''type'', JStr ''error''), (''message'', JStr msg), (''timestamp'', JStr now)]"

text \<open>
  \<open>get_pending_notifications\<close>: the ten newest unread notifications of the user, newest
  first; the sender, when there is one, is fetched for its name.
\<close>

definition pending_entry :: "db \<Rightarrow> notification \<Rightarrow> error + json" where
  "pending_entry s notif =
     (case (case n_sender notif of
              None \<Rightarrow> Inr JNull
            | Some sid \<Rightarrow> (case users s sid of
                             None \<Rightarrow> Inl DoesNotExist
                           | Some u \<Rightarrow> Inr (JStr (username u)))) of
        Inl e \<Rightarrow> Inl e
      | Inr sender \<Rightarrow>
          Inr (JObj [(''id'', JInt (int (n_id notif))),
                     (''type'', JStr (n_notification_type notif)),
                     (''title'', JStr (n_title notif)),
                     (''message'', JStr (n_message notif)),
                     (''created_at'', JStr (n_created_at notif)),
                     (''sender'', sender)]))"

fun collect :: "('a \<Rightarrow> error + 'b) \<Rightarrow> 'a list \<Rightarrow> error + 'b list" where
  "collect f [] = Inr []"
| "collect f (x # xs) =
     (case f x of
        Inl e \<Rightarrow> Inl e
      | Inr y \<Rightarrow> (case collect f xs of Inl e \<Rightarrow> Inl e | Inr ys \<Rightarrow> Inr (y # ys)))"

definition get_pending_notifications :: "db \<Rightarrow> user \<Rightarrow> error + json list" where
  "get_pending_notifications s usr =
     collect (pending_entry s) (take 10 (rev (unread_notifications s (user_id usr))))"

definition pending_notifications :: "isotime \<Rightarrow> json list \<Rightarrow> message" where
  "pending_notifications now ns =
     [(''type'', JStr ''pending_notifications''),
      (''notifications'', JList ns),
      (''count'', JInt (int (length ns))),
      (''timestamp'', JStr now)]"

text \<open>
  \<open>connect\<close>: \<open>scope["user"]\<close> is \<open>None\<close> for a user who is not authenticated, and the
  connection is then closed with code 4001.  The result is what was sent to the client, in
  order.
\<close>

definition NotificationConsumer_connect ::
  "isotime \<Rightarrow> user option \<Rightarrow> string \<Rightarrow> db \<Rightarrow> error + (message list \<times> db)" where
  "NotificationConsumer_connect now scope_user channel_name s =
     (case scope_user of
        None \<Rightarrow> Inr ([], s)
      | Some usr \<Rightarrow>
          (let notification_group = ''notifications_'' @ str_nat (user_id usr);
               s1 = group_add notification_group channel_name s;
               global_group = ''global_updates'';
               s2 = group_add global_group channel_name s1
           in case get_pending_notifications s2 usr of
                Inl e \<Rightarrow> Inl e
              | Inr ns \<Rightarrow>
                  Inr (connection_established now
                         # (if ns \<noteq> [] then [pending_notifications now ns] else []), s2)))"

text \<open>
  The handlers for channel-layer events.  The handler \<open>reputation_update\<close> is written
  \<open>reputation_update_handler\<close>, as the record of users already has an update function of
  that name.
\<close>

definition new_notification :: "isotime \<Rightarrow> message \<Rightarrow> error + message" where
  "new_notification now event =
     getitem event ''notification'' (\<lambda>notification.
       Inr [(''type'', JStr ''new_notification''),
            (''notification'', notification),
            (''timestamp'', get_or event ''timestamp'' (JStr now))])"

definition reputation_update_handler :: "isotime \<Rightarrow> message \<Rightarrow> error + message" where
  "reputation_update_handler now event =
     getitem event ''new_reputation'' (\<lambda>new_reputation.
     getitem event ''change'' (\<lambda>change.
     getitem event ''reason'' (\<lambda>reason.
       Inr [(''type'', JStr ''reputation_update''),
            (''new_reputation'', new_reputation),
            (''change'', change),
            (''reason'', reason),
            (''timestamp'', get_or event ''timestamp'' (JStr now))])))"

definition vote_update :: "isotime \<Rightarrow> message \<Rightarrow> error + message" where
  "vote_update now event =
     getitem event ''content_type'' (\<lambda>content_type.
     getitem event ''object_id'' (\<lambda>object_id.
     getitem event ''vote_score'' (\<lambda>vote_score.
       Inr [(''type'', JStr ''vote_update''),
            (''content_type'', content_type),
            (''object_id'', object_id),
            (''vote_score'', vote_score),
            (''user_vote'', get_or event ''user_vote'' JNull),
            (''timestamp'', get_or event ''timestamp'' (JStr now))])))"

definition answer_update :: "isotime \<Rightarrow> message \<Rightarrow> error + message" where
  "answer_update now event =
     getitem event ''question_id'' (\<lambda>question_id.
     getitem event ''answer'' (\<lambda>answer.
       Inr [(''type'', JStr ''new_answer''),
            (''question_id'', question_id),
            (''answer'', answer),
            (''timestamp'', get_or event ''timestamp'' (JStr now))]))"

text \<open>
  How the consumer finds the handler of a channel-layer event: the method named by the
  event's \<open>type\<close>; \<open>ValueError\<close> when the class has no such handler.
\<close>

definition NotificationConsumer_dispatch :: "isotime \<Rightarrow> message \<Rightarrow> error + message" where
  "NotificationConsumer_dispatch now event =
     (case map_of event ''type'' of
        Some (JStr t) \<Rightarrow>
          if t = ''new_notification'' then new_notification now event
          else if t = ''reputation_update'' then reputation_update_handler now event
          else if t = ''vote_update'' then vote_update now event
          else if t = ''answer_update'' then answer_update now event
          else Inl (ValueError (''No handler for message type '' @ t))
      | _ \<Rightarrow> Inl (ValueError ''Incoming message has no type attribute''))"

subsection \<open>\<open>realtime.consumers.QuestionConsumer\<close>\<close>

definition question_data :: "isotime \<Rightarrow> json \<Rightarrow> message" where
  "question_data now q =
     [(''type'', JStr ''question_data''), (''question'', q), (''timestamp'', JStr now)]"

definition question_vote_update :: "isotime \<Rightarrow> message \<Rightarrow> error + message" where
  "question_vote_update now event =
     getitem event ''vote_score'' (\<lambda>vote_score.
       Inr [(''type'', JStr ''vote_update''),
            (''vote_score'', vote_score),
            (''upvotes'', get_or event ''upvotes'' (JInt 0)),
            (''downvotes'', get_or event ''downvotes'' (JInt 0)),
            (''timestamp'', get_or event ''timestamp'' (JStr now))])"

definition new_answer :: "isotime \<Rightarrow> message \<Rightarrow> error + message" where
  "new_answer now event =
     getitem event ''answer'' (\<lambda>answer.
       Inr [(''type'', JStr ''new_answer''),
            (''answer'', answer),
            (''answer_count'', get_or event ''answer_count'' (JInt 0)),
            (''timestamp'', get_or event ''timestamp'' (JStr now))])"

definition answer_accepted :: "isotime \<Rightarrow> message \<Rightarrow> error + message" where
  "answer_accepted now event =
     getitem event ''answer_id'' (\<lambda>aid.
       Inr [(''type'', JStr ''answer_accepted''),
            (''answer_id'', aid),
            (''question_answered'', JBool True),
            (''timestamp'', get_or event ''timestamp'' (JStr now))])"

definition view_count_update :: "isotime \<Rightarrow> message \<Rightarrow> error + message" where
  "view_count_update now event =
     getitem event ''views'' (\<lambda>views.
       Inr [(''type'', JStr ''view_update''),
            (''views'', views),
            (''unique_views'', get_or event ''unique_views'' JNull),
            (''timestamp'', get_or event ''timestamp'' (JStr now))])"

subsection \<open>\<open>realtime.consumers.LiveFeedConsumer\<close>\<close>

definition recent_activities :: "isotime \<Rightarrow> json list \<Rightarrow> message" where
  "recent_activities now activities =
     [(''type'', JStr ''recent_activities''),
      (''activities'', JList activities),
      (''timestamp'', JStr now)]"

definition new_activity :: "isotime \<Rightarrow> message \<Rightarrow> error + message" where
  "new_activity now event =
     getitem event ''activity'' (\<lambda>activity.
       Inr [(''type'', JStr ''new_activity''),
            (''activity'', activity),
            (''timestamp'', get_or event ''timestamp'' (JStr now))])"

definition trending_update :: "isotime \<Rightarrow> message \<Rightarrow> error + message" where
  "trending_update now event =
     getitem event ''content'' (\<lambda>content.
       Inr [(''type'', JStr ''trending_update''),
            (''content'', content),
            (''timestamp'', get_or event ''timestamp'' (JStr now))])"

subsection \<open>\<open>realtime.consumers.AdminMonitoringConsumer\<close>\<close>

text \<open>\<open>send_system_status\<close>: the status dictionary, which has a timestamp of its own inside.\<close>

definition system_status :: "json \<Rightarrow> message" where
  "system_status status = [(''type'', JStr ''system_status''), (''status'', status)]"

definition system_alert :: "isotime \<Rightarrow> message \<Rightarrow> error + message" where
  "system_alert now event =
     getitem event ''alert'' (\<lambda>alert.
       Inr [(''type'', JStr ''system_alert''),
            (''alert'', alert),
            (''severity'', get_or event ''severity'' (JStr ''info'')),
            (''timestamp'', get_or event ''timestamp'' (JStr now))])"

definition performance_warning :: "isotime \<Rightarrow> message \<Rightarrow> error + message" where
  "performance_warning now event =
     getitem event ''metric'' (\<lambda>metric.
     getitem event ''value'' (\<lambda>val.
       Inr [(''type'', JStr ''performance_warning''),
            (''metric'', metric),
            (''value'', val),
            (''threshold'', get_or event ''threshold'' JNull),
            (''timestamp'', get_or event ''timestamp'' (JStr now))]))"

subsection \<open>\<open>notifications.consumers.NotificationConsumer\<close>\<close>

definition unread_count_message :: "nat \<Rightarrow> message" where
  "unread_count_message unread_count =
     [(''type'', JStr ''unread_count''), (''count'', JInt (int unread_count))]"

text \<open>\<open>connect\<close>: an anonymous user is turned away; the others get their unread count.\<close>

definition notifications_connect ::
  "user option \<Rightarrow> string \<Rightarrow> db \<Rightarrow> message list \<times> db" where
  "notifications_connect scope_user channel_name s =
     (case scope_user of
        None \<Rightarrow> ([], s)
      | Some usr \<Rightarrow>
          (let group_name = ''notifications_'' @ str_nat (user_id usr);
               s1 = group_add group_name channel_name s;
               unread_count = get_unread_count s1 (user_id usr)
           in ([unread_count_message unread_count], s1)))"

definition notification_message :: "message \<Rightarrow> error + message" where
  "notification_message event =
     getitem event ''notification'' (\<lambda>notification.
       Inr [(''type'', JStr ''notification''), (''notification'', notification)])"

subsection \<open>Every place that sends to a client\<close>

text \<open>
  One constructor for each \<open>self.send\<close> of the two consumer modules, with what the place
  sends: the local data of the method, or the channel-layer event it handles.
\<close>

datatype outbound =
    RT_connection_established
  | RT_notification_marked_read json
  | RT_question_subscribed nat
  | RT_heartbeat_response
  | RT_error string
  | RT_pending_notifications "json list"
  | RT_new_notification message
  | RT_reputation_update message
  | RT_vote_update message
  | RT_answer_update message
  | Q_question_data json
  | Q_question_vote_update message
  | Q_new_answer message
  | Q_answer_accepted message
  | Q_view_count_update message
  | LF_recent_activities "json list"
  | LF_new_activity message
  | LF_trending_update message
  | AD_system_status json
  | AD_system_alert message
  | AD_performance_warning message
  | N_unread_count nat
  | N_notification_message message

fun render :: "isotime \<Rightarrow> outbound \<Rightarrow> error + message" where
  "render now RT_connection_established = Inr (connection_established now)"
| "render now (RT_notification_marked_read i) = Inr (notification_marked_read now i)"
| "render now (RT_question_subscribed i) = Inr (question_subscribed now i)"
| "render now RT_heartbeat_response = Inr (heartbeat_response now)"
| "render now (RT_error msg) = Inr (send_error now msg)"
| "render now (RT_pending_notifications ns) = Inr (pending_notifications now ns)"
| "render now (RT_new_notification event) = new_notification now event"
| "render now (RT_reputation_update event) = reputation_update_handler now event"
| "render now (RT_vote_update event) = vote_update now event"
| "render now (RT_answer_update event) = answer_update now event"
| "render now (Q_question_data q) = Inr (question_data now q)"
| "render now (Q_question_vote_update event) = question_vote_update now event"
| "render now (Q_new_answer event) = new_answer now event"
| "render now (Q_answer_accepted event) = answer_accepted now event"
| "render now (Q_view_count_update event) = view_count_update now event"
| "render now (LF_recent_activities acts) = Inr (recent_activities now acts)"
| "render now (LF_new_activity event) = new_activity now event"
| "render now (LF_trending_update event) = trending_update now event"
| "render now (AD_system_status status) = Inr (system_status status)"
| "render now (AD_system_alert event) = system_alert now event"
| "render now (AD_performance_warning event) = performance_warning now event"
| "render now (N_unread_count c) = Inr (unread_count_message c)"
| "render now (N_notification_message event) = notification_message event"

text \<open>The channel-layer event a place handles; the empty dictionary for the other places.\<close>

fun event_of :: "outbound \<Rightarrow> message" where
  "event_of (RT_new_notification event) = event"
| "event_of (RT_reputation_update event) = event"
| "event_of (RT_vote_update event) = event"
| "event_of (RT_answer_update event) = event"
| "event_of (Q_question_vote_update event) = event"
| "event_of (Q_new_answer event) = event"
| "event_of (Q_answer_accepted event) = event"
| "event_of (Q_view_count_update event) = event"
| "event_of (LF_new_activity event) = event"
| "event_of (LF_trending_update event) = event"
| "event_of (AD_system_alert event) = event"
| "event_of (AD_performance_warning event) = event"
| "event_of (N_notification_message event) = event"
| "event_of _ = []"

text \<open>
  The places of \<open>notifications.consumers\<close>, and the one place of \<open>realtime.consumers\<close>
  that sends a status dictionary.
\<close>

fun in_notifications_module :: "outbound \<Rightarrow> bool" where
  "in_notifications_module (N_unread_count c) = True"
| "in_notifications_module (N_notification_message event) = True"
| "in_notifications_module _ = False"

fun is_system_status :: "outbound \<Rightarrow> bool" where
  "is_system_status (AD_system_status status) = True"
| "is_system_status _ = False"

definition timestamp_of :: "message \<Rightarrow> json option" where
  "timestamp_of m = map_of m ''timestamp''"

section \<open>The first vote, spelled out\<close>

text \<open>
  What \<open>toggle_vote\<close> computes when the user has no vote on the target yet: the row it
  creates and the store after the author was notified.  Used to state the steps of the
  proofs below.
\<close>

definition cast_vote :: "user \<Rightarrow> target \<Rightarrow> int \<Rightarrow> db \<Rightarrow> vote" where
  "cast_vote usr T v s =
     \<lparr>v_id = next_id (map v_id (votes s)), v_user = user_id usr, v_value = v,
      v_content_type = get_for_model T, v_object_id = target_id T\<rparr>"

definition after_cast :: "isotime \<Rightarrow> user \<Rightarrow> target \<Rightarrow> int \<Rightarrow> db \<Rightarrow> db" where
  "after_cast now usr T v s =
     (let s0 = s\<lparr>votes := votes s @ [cast_vote usr T v s]\<rparr>
      in notify_vote now (content_object_of s0 (get_for_model T) (target_id T)) usr v s0)"

section \<open>A small store\<close>

text \<open>
  Three users, a question of the first and an answer of the second to it; no vote, no
  transaction, no notification, nobody connected.  The content types have the keys 1 to 20.
\<close>

definition alice :: user where
  "alice = \<lparr>user_id = 1, username = ''alice'', reputation = 100, role = ''user'',
            is_suspended = False\<rparr>"

definition bob :: user where
  "bob = \<lparr>user_id = 2, username = ''bob'', reputation = 100, role = ''user'',
          is_suspended = False\<rparr>"

definition carol :: user where
  "carol = \<lparr>user_id = 3, username = ''carol'', reputation = 100, role = ''user'',
            is_suspended = False\<rparr>"

definition question1 :: question where
  "question1 = \<lparr>question_id = 1, question_title = ''How do I retract a vote?'',
                question_author = 1, accepted_answer = None, is_answered = False\<rparr>"

definition answer1 :: answer where
  "answer1 = \<lparr>answer_id = 1, answer_question = 1, answer_author = 2, is_accepted = False\<rparr>"

definition demo_db :: db where
  "demo_db =
     \<lparr>users = [1 \<mapsto> alice, 2 \<mapsto> bob, 3 \<mapsto> carol],
      questions = [1 \<mapsto> question1],
      answers = [1 \<mapsto> answer1],
      votes = [],
      reputation_transactions = [],
      notifications = [],
      cache = Map.empty,
      groups = [],
      delivered = [],
      content_type_ids = {1..20}\<rparr>"

text \<open>The question as a view loads it: nothing cached, no attribute set.\<close>

definition question1_loaded :: question_instance where
  "question1_loaded =
     \<lparr>q_fields = question1, q_slug = ''how-do-i-retract-a-vote'',
      q_accepted_answer_cache = None, q_previous_accepted_answer = None\<rparr>"

text \<open>The answer as a view loads it: nothing cached.\<close>

definition answer1_loaded :: answer_instance where
  "answer1_loaded = \<lparr>a_fields = answer1, a_author_cache = None, a_question_cache = None\<rparr>"

text \<open>
  The small store with a later answer of bob to the same question, whose key 50 is not the
  key of a content type, and that answer as a view loads it.
\<close>

definition answer50 :: answer where
  "answer50 = \<lparr>answer_id = 50, answer_question = 1, answer_author = 2, is_accepted = False\<rparr>"

definition late_db :: db where
  "late_db = demo_db\<lparr>answers := (answers demo_db)(50 \<mapsto> answer50)\<rparr>"

definition answer50_loaded :: answer_instance where
  "answer50_loaded = \<lparr>a_fields = answer50, a_author_cache = None, a_question_cache = None\<rparr>"

text \<open>The small store after carol upvoted the answer and bob upvoted the question.\<close>

definition voted_db :: db where
  "voted_db =
     demo_db\<lparr>votes :=
       [\<lparr>v_id = 1, v_user = 3, v_value = 1, v_content_type = AnswerModel, v_object_id = 1\<rparr>,
        \<lparr>v_id = 2, v_user = 2, v_value = 1, v_content_type = QuestionModel, v_object_id = 1\<rparr>]\<rparr>"

text \<open>
  New transactions for bob: two whose \<open>User\<close> instances follow the store, and two that
  both carry bob as he was loaded before the first was saved.
\<close>

definition award :: "user \<Rightarrow> int \<Rightarrow> reputation_transaction_instance" where
  "award usr n =
     \<lparr>self_pk = None, self_user = usr, self_transaction_type = ''bounty_awarded'',
      self_amount = n, self_description = ''bounty'', self_content_type_id = 1,
      self_object_id = 1, self_balance_after = 0, self_version = 1\<rparr>"

definition two_awards_in_step :: "(isotime \<times> reputation_transaction_instance) list" where
  "two_awards_in_step = [(''t1'', award bob 5), (''t2'', award (bob\<lparr>reputation := 105\<rparr>) 10)]"

definition two_awards_stale :: "(isotime \<times> reputation_transaction_instance) list" where
  "two_awards_stale = [(''t1'', award bob 5), (''t2'', award bob 10)]"

text \<open>A channel-layer event of the shape the handler \<open>reputation_update\<close> reads.\<close>

definition reputation_event :: message where
  "reputation_event =
     [(''type'', JStr ''reputation_update''),
      (''new_reputation'', JInt 110),
      (''change'', JInt 10),
      (''reason'', JStr ''Answer Upvoted (+10)'')]"

text \<open>The small store with three notifications for bob, two of them unread, and one for alice.\<close>

definition demo_notification :: "nat \<Rightarrow> nat \<Rightarrow> bool \<Rightarrow> notification" where
  "demo_notification k rcp seen =
     \<lparr>n_id = k, n_recipient = rcp, n_sender = Some 3, n_notification_type = ''answer_upvoted'',
      n_title = ''Your answer was upvoted'', n_message = ''carol upvoted your answer'',
      n_is_read = seen, n_related_question_id = Some 1, n_related_answer_id = Some 1,
      n_created_at = ''t0''\<rparr>"

definition inbox_db :: db where
  "inbox_db = demo_db\<lparr>notifications := [demo_notification 1 2 False, demo_notification 2 1 False, demo_notification 3 2 True,
                                          demo_notification 4 2 False]\<rparr>"

section \<open>Properties of the notification store\<close>

lemma unread_after_update:
  "filter (\<lambda>n. n_recipient n = uid \<and> \<not> n_is_read n) (queryset_update_is_read uid ns) = []"
  by (induction ns) (simp_all add: queryset_update_is_read_def)

lemma update_without_unread:
  "filter (\<lambda>n. n_recipient n = uid \<and> \<not> n_is_read n) ns = [] \<Longrightarrow>
   queryset_update_is_read uid ns = ns"
  by (induction ns) (auto simp: queryset_update_is_read_def split: if_splits)

text \<open>
  C8.  \<open>mark_all_read\<close> returns the number of the recipient's notifications that were unread
  when it was called, the recipient's unread count is 0 afterwards, and with no unread
  notification it returns 0 and leaves the store as it was.
\<close>

theorem mark_all_read_count:
  "fst (mark_all_read uid s) = get_unread_count s uid \<and>
   get_unread_count (snd (mark_all_read uid s)) uid = 0 \<and>
   (get_unread_count s uid = 0 \<longrightarrow> mark_all_read uid s = (0, s))"
proof (intro conjI impI)
  show "fst (mark_all_read uid s) = get_unread_count s uid"
    by (simp add: mark_all_read_def get_unread_count_def Let_def)
  show "get_unread_count (snd (mark_all_read uid s)) uid = 0"
    by (simp add: mark_all_read_def get_unread_count_def unread_notifications_def Let_def
        unread_after_update)
  assume "get_unread_count s uid = 0"
  then have none: "filter (\<lambda>n. n_recipient n = uid \<and> \<not> n_is_read n) (notifications s) = []"
    by (simp add: get_unread_count_def unread_notifications_def)
  then show "mark_all_read uid s = (0, s)"
    by (simp add: mark_all_read_def unread_notifications_def Let_def update_without_unread)
qed

theorem mark_all_read_count_witness:
  "fst (mark_all_read 2 inbox_db) = 2 \<and>
   get_unread_count (snd (mark_all_read 2 inbox_db)) 2 = 0 \<and>
   get_unread_count (snd (mark_all_read 2 inbox_db)) 1 = 1 \<and>
   mark_all_read 2 (snd (mark_all_read 2 inbox_db)) = (0, snd (mark_all_read 2 inbox_db))"
proof -
  have two: "get_unread_count inbox_db 2 = 2"
    by (simp add: get_unread_count_def unread_notifications_def inbox_db_def demo_notification_def)
  have other: "get_unread_count (snd (mark_all_read 2 inbox_db)) 1 = 1"
    by (simp add: mark_all_read_def queryset_update_is_read_def get_unread_count_def
        unread_notifications_def inbox_db_def demo_notification_def Let_def)
  show ?thesis
    using two other mark_all_read_count [of 2 inbox_db]
      mark_all_read_count [of 2 "snd (mark_all_read 2 inbox_db)"]
    by simp
qed

section \<open>Properties of the vote toggle engine\<close>

lemma next_id_fresh: "x \<in> set ids \<Longrightarrow> x < next_id ids"
  by (induction ids) (auto simp: next_id_def)

text \<open>The notification of a vote writes the notification table and the channels only.\<close>

lemma notify_vote_frame:
  "users (notify_vote now co voter v s) = users s"
  "questions (notify_vote now co voter v s) = questions s"
  "answers (notify_vote now co voter v s) = answers s"
  "votes (notify_vote now co voter v s) = votes s"
  "reputation_transactions (notify_vote now co voter v s) = reputation_transactions s"
  "cache (notify_vote now co voter v s) = cache s"
  "groups (notify_vote now co voter v s) = groups s"
  by (simp_all add: notify_vote_def create_notification_def send_notification_to_user_def
      group_send_def Let_def split: option.splits target.splits)

lemma filter_fresh_id:
  "\<forall>r \<in> set rows. v_id r \<noteq> k \<Longrightarrow> filter (\<lambda>r. v_id r \<noteq> k) rows = rows"
  by (induction rows) auto

lemma map_fresh_id:
  "\<forall>r \<in> set rows. v_id r \<noteq> k \<Longrightarrow> map (\<lambda>r. if v_id r = k then w else r) rows = rows"
  by (induction rows) auto

lemma vote_ids_fresh:
  "\<forall>r \<in> set rows. v_id r \<noteq> next_id (map v_id rows)"
proof
  fix r assume "r \<in> set rows"
  then have "v_id r < next_id (map v_id rows)" by (intro next_id_fresh) simp
  then show "v_id r \<noteq> next_id (map v_id rows)" by simp
qed

lemma toggle_vote_first:
  assumes "filter (vote_matches (user_id usr) (get_for_model T) (target_id T)) (votes s) = []"
  shows "toggle_vote now usr T v s = Inr (Some (cast_vote usr T v s), after_cast now usr T v s)"
  using assms
  by (simp add: toggle_vote_def Vote_objects_get_def Vote_objects_create_def Let_def
      cast_vote_def after_cast_def)

lemma votes_after_cast: "votes (after_cast now usr T v s) = votes s @ [cast_vote usr T v s]"
  by (simp add: after_cast_def Let_def notify_vote_frame)

lemma cast_vote_matches:
  "vote_matches (user_id usr) (get_for_model T) (target_id T) (cast_vote usr T v s)"
  by (simp add: vote_matches_def cast_vote_def)

text \<open>
  C3.  From a store without a vote of the user on the target, voting the same value twice
  creates the vote and then removes it: the second call returns \<open>None\<close>, no vote of the user
  on the target is left, the vote table is the one before the first call, and the vote score
  of the target reads as it did before.  The value need not be 1 or -1 for this.
\<close>

theorem double_toggle_restores:
  assumes "filter (vote_matches (user_id usr) (get_for_model T) (target_id T)) (votes s) = []"
  shows "\<exists>vote s1 s2.
           toggle_vote now usr T v s = Inr (Some vote, s1) \<and>
           toggle_vote now' usr T v s1 = Inr (None, s2) \<and>
           filter (vote_matches (user_id usr) (get_for_model T) (target_id T)) (votes s2) = [] \<and>
           votes s2 = votes s \<and>
           fst (vote_score T s2) = fst (vote_score T s)"
proof -
  define vote where "vote = cast_vote usr T v s"
  define s1 where "s1 = after_cast now usr T v s"
  have first: "toggle_vote now usr T v s = Inr (Some vote, s1)"
    using toggle_vote_first [OF assms] by (simp add: vote_def s1_def)
  have votes1: "votes s1 = votes s @ [vote]"
    by (simp add: s1_def vote_def votes_after_cast)
  have get1: "Vote_objects_get s1 (user_id usr) (get_for_model T) (target_id T) = Inr vote"
    using assms cast_vote_matches [of usr T v s]
    by (simp add: Vote_objects_get_def votes1 vote_def)
  have fresh: "\<forall>r \<in> set (votes s). v_id r \<noteq> v_id vote"
    using vote_ids_fresh [of "votes s"] by (simp add: vote_def cast_vote_def)
  have val: "v_value vote = v"
    by (simp add: vote_def cast_vote_def)
  define s2 where "s2 = Vote_delete vote s1"
  have second: "toggle_vote now' usr T v s1 = Inr (None, s2)"
    using get1 val by (simp add: toggle_vote_def Let_def s2_def)
  have votes2: "votes s2 = votes s"
    using fresh by (simp add: s2_def Vote_delete_def votes1 filter_fresh_id)
  have cache2: "cache s2 = cache s"
    by (simp add: s2_def Vote_delete_def s1_def after_cast_def Let_def notify_vote_frame)
  have score: "fst (vote_score T s2) = fst (vote_score T s)"
    by (cases T)
      (simp_all add: Question_vote_score_def Answer_vote_score_def vote_sum_def votes_on_def
        votes2 cache2 Let_def split: option.splits)
  show ?thesis
    using first second votes2 score assms by auto
qed

theorem double_toggle_restores_witness:
  "filter (vote_matches (user_id carol) (get_for_model (TAnswer answer1))
             (target_id (TAnswer answer1))) (votes demo_db) = [] \<and>
   (\<exists>vote s1 s2.
      toggle_vote ''t1'' carol (TAnswer answer1) 1 demo_db = Inr (Some vote, s1) \<and>
      toggle_vote ''t2'' carol (TAnswer answer1) 1 s1 = Inr (None, s2) \<and>
      filter (vote_matches (user_id carol) (get_for_model (TAnswer answer1))
                (target_id (TAnswer answer1))) (votes s2) = [] \<and>
      votes s2 = votes demo_db \<and>
      fst (vote_score (TAnswer answer1) s2) = fst (vote_score (TAnswer answer1) demo_db))"
proof -
  have h: "filter (vote_matches (user_id carol) (get_for_model (TAnswer answer1))
             (target_id (TAnswer answer1))) (votes demo_db) = []"
    by (simp add: demo_db_def)
  show ?thesis
    using h double_toggle_restores [OF h, of "''t1''" 1 "''t2''"] by blast
qed

lemma same_id_same_row:
  "distinct (map v_id rows) \<Longrightarrow> r \<in> set rows \<Longrightarrow> m \<in> set rows \<Longrightarrow> v_id r = v_id m \<Longrightarrow> r = m"
  by (meson distinct_map inj_onD)

lemma get_single:
  "Vote_objects_get s uid ct oid = Inr vote \<Longrightarrow> filter (vote_matches uid ct oid) (votes s) = [vote]"
  by (auto simp: Vote_objects_get_def split: list.splits)

lemma filter_single_mem: "filter P rows = [m] \<Longrightarrow> m \<in> set rows \<and> P m"
proof -
  assume "filter P rows = [m]"
  then have "m \<in> set (filter P rows)" by simp
  then show ?thesis by simp
qed

lemma others_after_update:
  assumes "distinct (map v_id rows)" "m \<in> set rows" "P m" "P m'"
  shows "filter (\<lambda>r. \<not> P r) (map (\<lambda>r. if v_id r = v_id m then m' else r) rows)
         = filter (\<lambda>r. \<not> P r) rows"
proof -
  have "\<forall>r \<in> set rows. v_id r = v_id m \<longrightarrow> r = m"
    using assms(1,2) same_id_same_row by blast
  then show ?thesis using assms(3,4)
    by (induction rows) auto
qed

lemma others_after_delete:
  assumes "distinct (map v_id rows)" "m \<in> set rows" "P m"
  shows "filter (\<lambda>r. \<not> P r) (filter (\<lambda>r. v_id r \<noteq> v_id m) rows) = filter (\<lambda>r. \<not> P r) rows"
proof -
  have "\<forall>r \<in> set rows. v_id r = v_id m \<longrightarrow> r = m"
    using assms(1,2) same_id_same_row by blast
  then show ?thesis using assms(3)
    by (induction rows) auto
qed

lemma update_misses:
  assumes "\<forall>r \<in> set rows. \<not> P r" "P m" "\<forall>r \<in> set rows. v_id r = v_id m \<longrightarrow> r = m"
  shows "map (\<lambda>r. if v_id r = v_id m then m' else r) rows = rows"
  using assms by (induction rows) auto

lemma mine_after_update_aux:
  assumes "\<forall>r \<in> set rows. v_id r = v_id m \<longrightarrow> r = m" "filter P rows = [m]" "P m'"
  shows "filter P (map (\<lambda>r. if v_id r = v_id m then m' else r) rows) = [m']"
  using assms
proof (induction rows)
  case Nil then show ?case by simp
next
  case (Cons a rows)
  show ?case
  proof (cases "P a")
    case True
    with Cons.prems(2) have a: "a = m" and rest: "filter P rows = []" by auto
    from rest have none: "\<forall>r \<in> set rows. \<not> P r" by (simp add: filter_empty_conv)
    have "map (\<lambda>r. if v_id r = v_id m then m' else r) rows = rows"
      using update_misses [OF none] True a Cons.prems(1) by auto
    then show ?thesis using a rest Cons.prems(3) by simp
  next
    case False
    with Cons.prems(2) have rest: "filter P rows = [m]" by simp
    have Pm: "P m" using filter_single_mem [OF rest] by simp
    have "a \<noteq> m" using False Pm by auto
    then have "v_id a \<noteq> v_id m" using Cons.prems(1) by auto
    then show ?thesis using Cons.IH [OF _ rest Cons.prems(3)] Cons.prems(1) False by simp
  qed
qed

lemma mine_after_update:
  assumes "distinct (map v_id rows)" "filter P rows = [m]" "P m'"
  shows "filter P (map (\<lambda>r. if v_id r = v_id m then m' else r) rows) = [m']"
proof -
  have mem: "m \<in> set rows" using filter_single_mem [OF assms(2)] by simp
  have "\<forall>r \<in> set rows. v_id r = v_id m \<longrightarrow> r = m"
    using assms(1) mem same_id_same_row by blast
  then show ?thesis using assms(2,3) by (rule mine_after_update_aux)
qed

lemma mine_after_delete:
  assumes "filter P rows = [m]"
  shows "filter P (filter (\<lambda>r. v_id r \<noteq> v_id m) rows) = []"
  using assms
proof (induction rows)
  case Nil then show ?case by simp
next
  case (Cons a rows)
  show ?case
  proof (cases "P a")
    case True
    with Cons.prems have "a = m" "filter P rows = []" by auto
    then show ?thesis by (auto simp: filter_empty_conv)
  next
    case False
    with Cons show ?thesis by auto
  qed
qed

lemma toggle_vote_frame:
  assumes "toggle_vote now usr T v s = Inr (r, s')"
  shows "users s' = users s \<and> questions s' = questions s \<and> answers s' = answers s \<and>
         reputation_transactions s' = reputation_transactions s \<and> cache s' = cache s \<and>
         groups s' = groups s"
  using assms
  by (auto simp: toggle_vote_def Let_def Vote_objects_create_def Vote_delete_def Vote_save_def
      notify_vote_frame split: sum.splits error.splits if_splits)

text \<open>
  C10.  With primary keys that are distinct, a call of \<open>toggle_vote\<close> that returns leaves
  every vote of another user or on another target as it was, leaves at most one vote of the
  user on the target, and writes no row of a question, an answer or a user.
\<close>

theorem toggle_vote_touches_one_row:
  assumes "distinct (map v_id (votes s))"
    and "toggle_vote now usr T v s = Inr (r, s')"
  shows "filter (\<lambda>row. \<not> vote_matches (user_id usr) (get_for_model T) (target_id T) row) (votes s')
           = filter (\<lambda>row. \<not> vote_matches (user_id usr) (get_for_model T) (target_id T) row) (votes s) \<and>
         length (filter (vote_matches (user_id usr) (get_for_model T) (target_id T)) (votes s')) \<le> 1 \<and>
         questions s' = questions s \<and> answers s' = answers s \<and> users s' = users s"
proof -
  let ?P = "vote_matches (user_id usr) (get_for_model T) (target_id T)"
  have frame: "questions s' = questions s \<and> answers s' = answers s \<and> users s' = users s"
    using toggle_vote_frame [OF assms(2)] by simp
  show ?thesis
  proof (cases "Vote_objects_get s (user_id usr) (get_for_model T) (target_id T)")
    case (Inr vote)
    then have single: "filter ?P (votes s) = [vote]" by (rule get_single)
    then have mem: "vote \<in> set (votes s)" "?P vote"
      using filter_single_mem [of ?P "votes s" vote] by simp_all
    show ?thesis
    proof (cases "v_value vote = v")
      case True
      with Inr assms(2) have s': "s' = Vote_delete vote s"
        by (simp add: toggle_vote_def Let_def)
      show ?thesis
        using frame others_after_delete [of "votes s" vote ?P, OF assms(1) mem] mine_after_delete [of ?P "votes s" vote, OF single]
        by (simp add: s' Vote_delete_def)
    next
      case False
      with Inr assms(2) have s': "s' = Vote_save (vote\<lparr>v_value := v\<rparr>) s"
        by (simp add: toggle_vote_def Let_def)
      have P': "?P (vote\<lparr>v_value := v\<rparr>)" using mem(2) by (simp add: vote_matches_def)
      show ?thesis
        using frame others_after_update [of "votes s" vote ?P, OF assms(1) mem P']
          mine_after_update [of "votes s" ?P vote, OF assms(1) single P']
        by (simp add: s' Vote_save_def)
    qed
  next
    case (Inl e)
    with assms(2) have e: "e = DoesNotExist"
      by (cases e) (simp_all add: toggle_vote_def Let_def)
    with Inl have none: "filter ?P (votes s) = []"
      by (auto simp: Vote_objects_get_def split: list.splits)
    have s': "s' = after_cast now usr T v s"
      using toggle_vote_first [OF none, of now v] assms(2) by simp
    show ?thesis
      using frame none cast_vote_matches [of usr T v s]
      by (simp add: s' votes_after_cast)
  qed
qed

theorem toggle_vote_touches_one_row_witness:
  "distinct (map v_id (votes voted_db)) \<and>
   toggle_vote ''t1'' carol (TAnswer answer1) (- 1) voted_db =
     Inr (Some \<lparr>v_id = 1, v_user = 3, v_value = - 1, v_content_type = AnswerModel, v_object_id = 1\<rparr>,
          Vote_save \<lparr>v_id = 1, v_user = 3, v_value = - 1, v_content_type = AnswerModel,
                     v_object_id = 1\<rparr> voted_db) \<and>
   filter (\<lambda>row. \<not> vote_matches 3 AnswerModel 1 row)
     (votes (Vote_save \<lparr>v_id = 1, v_user = 3, v_value = - 1, v_content_type = AnswerModel,
                        v_object_id = 1\<rparr> voted_db))
     = [\<lparr>v_id = 2, v_user = 2, v_value = 1, v_content_type = QuestionModel, v_object_id = 1\<rparr>]"
proof -
  have h1: "distinct (map v_id (votes voted_db))"
    by (simp add: voted_db_def)
  have h2: "toggle_vote ''t1'' carol (TAnswer answer1) (- 1) voted_db =
     Inr (Some \<lparr>v_id = 1, v_user = 3, v_value = - 1, v_content_type = AnswerModel, v_object_id = 1\<rparr>,
          Vote_save \<lparr>v_id = 1, v_user = 3, v_value = - 1, v_content_type = AnswerModel,
                     v_object_id = 1\<rparr> voted_db)"
    by (simp add: toggle_vote_def Vote_objects_get_def vote_matches_def voted_db_def carol_def
        answer1_def Let_def)
  show ?thesis
    using h1 h2 toggle_vote_touches_one_row [OF h1 h2]
    by (simp add: voted_db_def carol_def answer1_def vote_matches_def)
qed

lemma get_of_single:
  "filter (vote_matches uid ct oid) (votes s) = [m] \<Longrightarrow> Vote_objects_get s uid ct oid = Inr m"
  by (simp add: Vote_objects_get_def)

lemma ids_after_update:
  "v_id m' = v_id m \<Longrightarrow> map v_id (map (\<lambda>r. if v_id r = v_id m then m' else r) rows) = map v_id rows"
  by (induction rows) auto

lemma at_most_one: "length xs \<le> 1 \<Longrightarrow> xs = [] \<or> (\<exists>m. xs = [m])"
  by (cases xs) (auto simp: length_Suc_conv)

text \<open>
  The vote rows of a flip.  In a store with distinct primary keys and at most one vote of the
  user on the target, an upvote followed by a downvote leaves exactly one vote of the user on
  the target; it has value -1 and is the vote the second call returns; when the first call
  returned a vote, the second call rewrote that same row.
\<close>

lemma flip_vote_rows:
  assumes ids: "distinct (map v_id (votes s))"
    and uniq: "length (filter (vote_matches (user_id usr) (get_for_model T) (target_id T)) (votes s)) \<le> 1"
  shows "\<exists>r1 s1 vote s2.
           toggle_vote now usr T 1 s = Inr (r1, s1) \<and>
           toggle_vote now' usr T (- 1) s1 = Inr (Some vote, s2) \<and>
           v_value vote = - 1 \<and>
           filter (vote_matches (user_id usr) (get_for_model T) (target_id T)) (votes s2) = [vote] \<and>
           (\<forall>vote1. r1 = Some vote1 \<longrightarrow> v_id vote = v_id vote1)"
proof -
  let ?P = "vote_matches (user_id usr) (get_for_model T) (target_id T)"
  have frame2: "reputation_transactions s2 = reputation_transactions s \<and> users s2 = users s"
    if "toggle_vote now usr T 1 s = Inr (r1, s1)" "toggle_vote now' usr T (- 1) s1 = Inr (r2, s2)"
    for r1 s1 r2 s2
    using toggle_vote_frame [OF that(1)] toggle_vote_frame [OF that(2)] by simp
  from at_most_one [OF uniq] consider (none) "filter ?P (votes s) = []"
    | (one) m where "filter ?P (votes s) = [m]" by blast
  then show ?thesis
  proof cases
    case none
    define c where "c = cast_vote usr T 1 s"
    define s1 where "s1 = after_cast now usr T 1 s"
    have first: "toggle_vote now usr T 1 s = Inr (Some c, s1)"
      using toggle_vote_first [OF none] by (simp add: c_def s1_def)
    have votes1: "votes s1 = votes s @ [c]"
      by (simp add: s1_def c_def votes_after_cast)
    have Pc: "?P c" by (simp add: c_def cast_vote_matches)
    have single1: "filter ?P (votes s1) = [c]"
      using none Pc by (simp add: votes1)
    have fresh: "\<forall>r \<in> set (votes s). v_id r \<noteq> v_id c"
      using vote_ids_fresh [of "votes s"] by (simp add: c_def cast_vote_def)
    have ids1: "distinct (map v_id (votes s1))"
      using ids fresh by (auto simp: votes1)
    define vote where "vote = c\<lparr>v_value := - 1\<rparr>"
    have Pv: "?P vote" using Pc by (simp add: vote_def vote_matches_def)
    have second: "toggle_vote now' usr T (- 1) s1 = Inr (Some vote, Vote_save vote s1)"
      using get_of_single [OF single1]
      by (simp add: toggle_vote_def Let_def vote_def c_def cast_vote_def)
    have idv: "v_id vote = v_id c" by (simp add: vote_def)
    have "filter ?P (votes (Vote_save vote s1)) = [vote]"
      using mine_after_update [of "votes s1" ?P c vote, OF ids1 single1 Pv]
      by (simp add: Vote_save_def idv)
    moreover have "v_value vote = - 1" by (simp add: vote_def)
    ultimately show ?thesis
      using first second frame2 [OF first second] idv by auto
  next
    case one
    have mem: "m \<in> set (votes s)" "?P m"
      using filter_single_mem [of ?P "votes s" m] one by simp_all
    show ?thesis
    proof (cases "v_value m = 1")
      case True
      define s1 where "s1 = Vote_delete m s"
      have first: "toggle_vote now usr T 1 s = Inr (None, s1)"
        using get_of_single [OF one] True by (simp add: toggle_vote_def Let_def s1_def)
      have none1: "filter ?P (votes s1) = []"
        using mine_after_delete [of ?P "votes s" m, OF one] by (simp add: s1_def Vote_delete_def)
      define vote where "vote = cast_vote usr T (- 1) s1"
      have second: "toggle_vote now' usr T (- 1) s1 = Inr (Some vote, after_cast now' usr T (- 1) s1)"
        using toggle_vote_first [OF none1] by (simp add: vote_def)
      have "filter ?P (votes (after_cast now' usr T (- 1) s1)) = [vote]"
        using none1 cast_vote_matches [of usr T "- 1" s1]
        by (simp add: votes_after_cast vote_def)
      moreover have "v_value vote = - 1" by (simp add: vote_def cast_vote_def)
      ultimately show ?thesis
        using first second frame2 [OF first second] by auto
    next
      case False
      define m1 where "m1 = m\<lparr>v_value := 1\<rparr>"
      define s1 where "s1 = Vote_save m1 s"
      have first: "toggle_vote now usr T 1 s = Inr (Some m1, s1)"
        using get_of_single [OF one] False by (simp add: toggle_vote_def Let_def s1_def m1_def)
      have P1: "?P m1" using mem(2) by (simp add: m1_def vote_matches_def)
      have id1: "v_id m1 = v_id m" by (simp add: m1_def)
      have single1: "filter ?P (votes s1) = [m1]"
        using mine_after_update [of "votes s" ?P m m1, OF ids one P1]
        by (simp add: s1_def Vote_save_def id1)
      have "map v_id (votes s1) = map v_id (votes s)"
        unfolding s1_def Vote_save_def id1 using ids_after_update [OF id1, of "votes s"]
        by (simp del: map_map)
      then have ids1: "distinct (map v_id (votes s1))"
        using ids by simp
      define vote where "vote = m1\<lparr>v_value := - 1\<rparr>"
      have Pv: "?P vote" using P1 by (simp add: vote_def vote_matches_def)
      have second: "toggle_vote now' usr T (- 1) s1 = Inr (Some vote, Vote_save vote s1)"
        using get_of_single [OF single1]
        by (simp add: toggle_vote_def Let_def vote_def m1_def)
      have idv: "v_id vote = v_id m1" by (simp add: vote_def)
      have "filter ?P (votes (Vote_save vote s1)) = [vote]"
        using mine_after_update [of "votes s1" ?P m1 vote, OF ids1 single1 Pv]
        by (simp add: Vote_save_def idv)
      moreover have "v_value vote = - 1" by (simp add: vote_def)
      ultimately show ?thesis
        using first second frame2 [OF first second] idv by auto
    qed
  qed
qed

text \<open>
  C4.  The ledger declares the transaction types of votes (\<open>Answer Upvoted (+10)\<close>,
  \<open>Answer Downvoted (-2)\<close>, \<open>Downvote Given (-1)\<close>), but no call of \<open>toggle_vote\<close>
  creates a transaction.  Carol upvotes bob's answer and then downvotes it: the second call
  returns her vote with value -1, the ledger is still empty, so it does not show the credit
  taken back and the penalty applied, and both reputations are what they were.
\<close>

theorem flip_vote_leaves_ledger_empty:
  "toggle_vote ''t1'' carol (TAnswer answer1) 1 demo_db =
     Inr (Some (cast_vote carol (TAnswer answer1) 1 demo_db),
          after_cast ''t1'' carol (TAnswer answer1) 1 demo_db) \<and>
   (case toggle_vote ''t2'' carol (TAnswer answer1) (- 1)
           (after_cast ''t1'' carol (TAnswer answer1) 1 demo_db) of
      Inl e \<Rightarrow> False
    | Inr (r, s2) \<Rightarrow>
        map_option v_value r = Some (- 1) \<and>
        reputation_transactions s2 = [] \<and>
        ledger_total s2 (answer_author answer1) - ledger_total demo_db (answer_author answer1)
          \<noteq> - 10 + - 2 \<and>
        stored_reputation s2 (answer_author answer1) = Some 100 \<and>
        stored_reputation s2 (user_id carol) = Some 100)"
  by (simp add: toggle_vote_def Vote_objects_get_def Vote_objects_create_def Vote_save_def
      vote_matches_def notify_vote_def content_object_of_def create_notification_def
      send_notification_to_user_def group_send_def group_members_def next_id_def Let_def
      after_cast_def cast_vote_def ledger_total_def transactions_of_def stored_reputation_def
      carol_def answer1_def demo_db_def bob_def)

text \<open>
  C2.  \<open>validate_vote_eligibility\<close> rejects a vote on one's own content, but
  \<open>toggle_vote\<close> does not call it: alice's vote on her own question returns the vote and
  stores its row.
\<close>

theorem self_vote_is_recorded:
  "validate_vote_eligibility alice (TQuestion question1)
     = Inl (ValidationError ''You cannot vote on your own content.'') \<and>
   toggle_vote ''t1'' alice (TQuestion question1) 1 demo_db
     = Inr (Some \<lparr>v_id = 1, v_user = 1, v_value = 1, v_content_type = QuestionModel,
                  v_object_id = 1\<rparr>,
            demo_db\<lparr>votes := [\<lparr>v_id = 1, v_user = 1, v_value = 1,
                                v_content_type = QuestionModel, v_object_id = 1\<rparr>]\<rparr>)"
  by (simp add: validate_vote_eligibility_def toggle_vote_def Vote_objects_get_def
      Vote_objects_create_def notify_vote_def content_object_of_def next_id_def Let_def
      alice_def question1_def demo_db_def)

section \<open>Properties of the ledger\<close>

text \<open>What saving a new transaction writes.\<close>

lemma save_new:
  assumes "ReputationTransaction_save now t s = Inr (t', s')" "self_pk t = None"
  shows "\<exists>r. reputation_transactions s' = reputation_transactions s @ [r] \<and>
             rt_user r = user_id (self_user t) \<and>
             rt_amount r = self_amount t \<and>
             rt_transaction_type r = self_transaction_type t \<and>
             rt_balance_after r = reputation (self_user t) + self_amount t \<and>
             self_balance_after t' = rt_balance_after r \<and>
             stored_reputation s' (user_id (self_user t)) = Some (rt_balance_after r) \<and>
             (\<forall>uid. uid \<noteq> user_id (self_user t) \<longrightarrow> users s' uid = users s uid) \<and>
             questions s' = questions s \<and> answers s' = answers s \<and> votes s' = votes s \<and>
             notifications s' = notifications s \<and> groups s' = groups s"
  using assms
  by (auto simp: ReputationTransaction_save_def User_save_reputation_def AuditModel_save_def
      trigger_realtime_update_def group_send_def row_of_instance_def stored_reputation_def
      Let_def split: option.splits sum.splits if_splits)

lemma run_balances:
  assumes "run_in_step ts s" "save_all ts s = Inr s'" "users s uid = Some u"
  shows "\<exists>new. transactions_of s' uid = transactions_of s uid @ new \<and>
               map rt_balance_after new = prefix_sums (reputation u) (map rt_amount new) \<and>
               stored_reputation s' uid = Some (reputation u + sum_list (map rt_amount new))"
  using assms
proof (induction ts arbitrary: s u)
  case Nil
  then show ?case by (simp add: stored_reputation_def)
next
  case (Cons a ts)
  obtain now t where a: "a = (now, t)" by (cases a)
  from Cons.prems(1) a have step: "in_step s t" by simp
  from Cons.prems(1) a obtain t1 s1 where
    save: "ReputationTransaction_save now t s = Inr (t1, s1)" and rest: "run_in_step ts s1"
    by (auto split: sum.splits)
  from Cons.prems(2) a save have all: "save_all ts s1 = Inr s'" by simp
  from step have new: "self_pk t = None" by (simp add: in_step_def)
  from save_new [OF save new] obtain r where
    r: "reputation_transactions s1 = reputation_transactions s @ [r]"
       "rt_user r = user_id (self_user t)"
       "rt_amount r = self_amount t"
       "rt_balance_after r = reputation (self_user t) + self_amount t"
       "stored_reputation s1 (user_id (self_user t)) = Some (rt_balance_after r)"
       "\<forall>uid. uid \<noteq> user_id (self_user t) \<longrightarrow> users s1 uid = users s uid"
    by blast
  show ?case
  proof (cases "uid = user_id (self_user t)")
    case True
    from step True Cons.prems(3) have sync: "reputation u = reputation (self_user t)"
      by (simp add: in_step_def)
    from r(5) True obtain u1 where u1: "users s1 uid = Some u1"
      "reputation u1 = reputation u + rt_amount r"
      using sync r(3,4) by (auto simp: stored_reputation_def)
    from Cons.IH [OF rest all u1(1)] obtain new where
      n: "transactions_of s' uid = transactions_of s1 uid @ new"
         "map rt_balance_after new = prefix_sums (reputation u1) (map rt_amount new)"
         "stored_reputation s' uid = Some (reputation u1 + sum_list (map rt_amount new))"
      by blast
    have t1: "transactions_of s1 uid = transactions_of s uid @ [r]"
      using r(1,2) True by (simp add: transactions_of_def)
    have "transactions_of s' uid = transactions_of s uid @ (r # new)"
      using n(1) t1 by simp
    moreover have "map rt_balance_after (r # new) = prefix_sums (reputation u) (map rt_amount (r # new))"
      using n(2) u1(2) r(3,4) sync by simp
    moreover have "stored_reputation s' uid = Some (reputation u + sum_list (map rt_amount (r # new)))"
      using n(3) u1(2) by simp
    ultimately show ?thesis by blast
  next
    case False
    then have u1: "users s1 uid = Some u" using r(6) Cons.prems(3) by simp
    have t1: "transactions_of s1 uid = transactions_of s uid"
      using r(1,2) False by (simp add: transactions_of_def)
    from Cons.IH [OF rest all u1] show ?thesis using t1 by simp
  qed
qed

lemmas ledger_eval =
  ReputationTransaction_save_def User_save_reputation_def AuditModel_save_def
  trigger_realtime_update_def group_send_def group_members_def row_of_instance_def
  next_id_def Let_def award_def bob_def demo_db_def in_step_def transactions_of_def
  stored_reputation_def

lemma run_in_step_saves: "run_in_step ts s \<Longrightarrow> \<exists>s'. save_all ts s = Inr s'"
  by (induction ts arbitrary: s) (auto split: sum.splits)

text \<open>
  C1 (as the code has it).  \<open>save\<close> reads the reputation from the \<open>User\<close> instance
  attached to the transaction, not from the user's row.  In a run of new transactions whose
  user instances are in step with the store when they are saved, the \<open>balance_after\<close>
  values of a user who had no transaction before the run are the running sums of the amounts,
  started from the reputation the user had before the run.  And whatever the instance holds,
  saving a new transaction appends one row for its user and leaves the user's stored
  reputation equal to the \<open>balance_after\<close> of that row.
\<close>

theorem balance_after_is_prefix_sum:
  "(run_in_step ts s \<and> save_all ts s = Inr s' \<and> users s uid = Some u \<and>
      transactions_of s uid = [] \<longrightarrow>
      map rt_balance_after (transactions_of s' uid)
        = prefix_sums (reputation u) (map rt_amount (transactions_of s' uid))) \<and>
   (self_pk t = None \<and> ReputationTransaction_save now t s = Inr (t', s2) \<longrightarrow>
      (\<exists>r. reputation_transactions s2 = reputation_transactions s @ [r] \<and>
           rt_user r = user_id (self_user t) \<and>
           self_balance_after t' = rt_balance_after r \<and>
           stored_reputation s2 (user_id (self_user t)) = Some (rt_balance_after r)))"
proof (intro conjI impI)
  assume h: "run_in_step ts s \<and> save_all ts s = Inr s' \<and> users s uid = Some u \<and>
      transactions_of s uid = []"
  then obtain new where "transactions_of s' uid = transactions_of s uid @ new"
    "map rt_balance_after new = prefix_sums (reputation u) (map rt_amount new)"
    using run_balances [of ts s s' uid u] by blast
  with h show "map rt_balance_after (transactions_of s' uid)
        = prefix_sums (reputation u) (map rt_amount (transactions_of s' uid))" by simp
next
  assume "self_pk t = None \<and> ReputationTransaction_save now t s = Inr (t', s2)"
  then show "\<exists>r. reputation_transactions s2 = reputation_transactions s @ [r] \<and>
           rt_user r = user_id (self_user t) \<and>
           self_balance_after t' = rt_balance_after r \<and>
           stored_reputation s2 (user_id (self_user t)) = Some (rt_balance_after r)"
    using save_new [of now t s t' s2] by blast
qed

theorem balance_after_is_prefix_sum_witness:
  "run_in_step two_awards_in_step demo_db \<and> users demo_db 2 = Some bob \<and>
   transactions_of demo_db 2 = [] \<and>
   (\<exists>s'. save_all two_awards_in_step demo_db = Inr s' \<and>
      map rt_balance_after (transactions_of s' 2)
        = prefix_sums (reputation bob) (map rt_amount (transactions_of s' 2))) \<and>
   self_pk (award bob 5) = None \<and>
   (\<exists>t' s2 r. ReputationTransaction_save ''t1'' (award bob 5) demo_db = Inr (t', s2) \<and>
      reputation_transactions s2 = reputation_transactions demo_db @ [r] \<and>
      stored_reputation s2 (user_id (self_user (award bob 5))) = Some (rt_balance_after r))"
proof -
  have run: "run_in_step two_awards_in_step demo_db"
    by (simp add: two_awards_in_step_def ledger_eval)
  then obtain s' where all: "save_all two_awards_in_step demo_db = Inr s'"
    using run_in_step_saves by blast
  have u: "users demo_db 2 = Some bob" and none: "transactions_of demo_db 2 = []"
    by (simp_all add: demo_db_def transactions_of_def)
  have new: "self_pk (award bob 5) = None" by (simp add: award_def)
  obtain t' s2 where save: "ReputationTransaction_save ''t1'' (award bob 5) demo_db = Inr (t', s2)"
    by (simp add: ledger_eval)
  show ?thesis
    using run u none all new save
      balance_after_is_prefix_sum [of two_awards_in_step demo_db s' 2 bob "award bob 5" "''t1''" t' s2]
    by blast
qed

text \<open>
  Without the instances being in step the running sums are not kept: two \<open>User\<close>
  instances loaded for bob while his reputation was 100, used for an award of 5 and then an
  award of 10, give the balances 105 and 110, where the sums of the amounts are 105 and 115.
\<close>

theorem stale_instance_counterexample:
  "users demo_db 2 = Some bob \<and> transactions_of demo_db 2 = [] \<and>
   (case save_all two_awards_stale demo_db of
      Inl e \<Rightarrow> False
    | Inr s' \<Rightarrow>
        map rt_amount (transactions_of s' 2) = [5, 10] \<and>
        map rt_balance_after (transactions_of s' 2) = [105, 110] \<and>
        prefix_sums (reputation bob) (map rt_amount (transactions_of s' 2)) = [105, 115])"
  by (simp add: two_awards_stale_def ledger_eval)

section \<open>Properties of answer acceptance\<close>

lemma save_new_returns:
  assumes "self_pk t = None" "users s (user_id (self_user t)) = Some row"
    "- 1000 \<le> reputation (self_user t) + self_amount t"
    "self_content_type_id t \<in> content_type_ids s"
  shows "\<exists>t' s'. ReputationTransaction_save now t s = Inr (t', s')"
  using assms
  by (simp add: ReputationTransaction_save_def User_save_reputation_def AuditModel_save_def
      trigger_realtime_update_def group_send_def Let_def)

lemma create_notification_frame:
  "users (snd (create_notification now rc sn ty ti ms rq ra s)) = users s"
  "questions (snd (create_notification now rc sn ty ti ms rq ra s)) = questions s"
  "answers (snd (create_notification now rc sn ty ti ms rq ra s)) = answers s"
  "votes (snd (create_notification now rc sn ty ti ms rq ra s)) = votes s"
  "reputation_transactions (snd (create_notification now rc sn ty ti ms rq ra s))
     = reputation_transactions s"
  "cache (snd (create_notification now rc sn ty ti ms rq ra s)) = cache s"
  "content_type_ids (snd (create_notification now rc sn ty ti ms rq ra s)) = content_type_ids s"
  by (simp_all add: create_notification_def send_notification_to_user_def group_send_def Let_def)

lemma question_answer_accepted_frame:
  assumes "question_answer_accepted now inst s = Inr s'"
  shows "users s' = users s \<and> questions s' = questions s \<and> answers s' = answers s \<and>
         votes s' = votes s \<and> reputation_transactions s' = reputation_transactions s \<and>
         content_type_ids s' = content_type_ids s"
  using assms
  by (auto simp: question_answer_accepted_def notify_answer_accepted_def
      create_notification_frame split: sum.splits option.splits if_splits)

lemma question_answer_accepted_returns:
  assumes "q_accepted_answer_cache inst = Some a" "accepted_answer (q_fields inst) = Some k"
    "get_question s a = Inr q"
  shows "\<exists>s'. question_answer_accepted now inst s = Inr s'"
  using assms
  by (simp add: question_answer_accepted_def get_accepted_answer_def notify_answer_accepted_def
      split: option.splits)

lemma Question_save_accepted_effect:
  assumes "questions s (question_id (q_fields inst)) = Some row"
    "q_accepted_answer_cache inst = Some a" "accepted_answer (q_fields inst) = Some k"
    "a_question_cache a = None" "answer_question (a_fields a) = question_id (q_fields inst)"
  shows "\<exists>inst' s'. Question_save_accepted now inst s = Inr (inst', s') \<and>
           q_fields inst' = q_fields inst \<and>
           questions s' = (questions s)(question_id (q_fields inst) \<mapsto>
              row\<lparr>accepted_answer := accepted_answer (q_fields inst),
                  is_answered := is_answered (q_fields inst)\<rparr>) \<and>
           users s' = users s \<and> answers s' = answers s \<and> votes s' = votes s \<and>
           reputation_transactions s' = reputation_transactions s \<and>
           content_type_ids s' = content_type_ids s"
proof -
  define s1 where "s1 = s\<lparr>questions := (questions s)(question_id (q_fields inst) \<mapsto>
                        row\<lparr>accepted_answer := accepted_answer (q_fields inst),
                            is_answered := is_answered (q_fields inst)\<rparr>)\<rparr>"
  have "\<exists>q. get_question s1 a = Inr q"
    using assms(4,5) by (simp add: s1_def get_question_def)
  then obtain q where "get_question s1 a = Inr q" by blast
  from question_answer_accepted_returns [OF assms(2,3) this]
  obtain s2 where s2: "question_answer_accepted now inst s1 = Inr s2" by blast
  note fr = question_answer_accepted_frame [OF s2]
  have "Question_save_accepted now inst s =
          Inr (track_accepted_answer_changes inst s2,
               invalidate_caches (track_accepted_answer_changes inst s2) s2)"
    using assms(1) s2 by (simp add: Question_save_accepted_def Let_def s1_def)
  moreover have "q_fields (track_accepted_answer_changes inst s2) = q_fields inst"
    by (simp add: track_accepted_answer_changes_def split: option.splits)
  ultimately show ?thesis
    using fr by (simp add: invalidate_caches_def Let_def s1_def)
qed

lemma Answer_save_effect:
  assumes "answers s (answer_id x) = Some row"
  shows "Answer_save_is_accepted x s =
           Inr (s\<lparr>answers := (if is_accepted x then clear_other_accepted x (answers s) else answers s)
                     (answer_id x \<mapsto> row\<lparr>is_accepted := is_accepted x\<rparr>)\<rparr>)"
  using assms by (simp add: Answer_save_is_accepted_def clear_other_accepted_def Let_def)

text \<open>
  When the call goes through.  Let the question instance be the stored question as loaded,
  the answer instance a stored answer to it as loaded, the answer's author and any
  previously accepted answer be stored, and the user be the question's author or a
  moderator.  If moreover the answer's primary key is the key of a content type and the
  author's reputation is at least -1015, \<open>accept_answer\<close> returns; the stored question has
  the answer as its accepted answer and is answered; the answer is flagged accepted; the
  previously accepted answer, and every other answer of the question, is not flagged; and
  one transaction row is appended, of type \<open>answer_accepted\<close> with amount 15 for the
  answer's author.
\<close>

lemma accept_answer_effect:
  assumes q: "questions s (question_id (q_fields self)) = Some (q_fields self)"
    and loaded: "q_accepted_answer_cache self = None"
    and prev: "\<forall>p. accepted_answer (q_fields self) = Some p \<longrightarrow>
                 (\<exists>row. answers s p = Some row \<and> answer_id row = p)"
    and a: "answers s (answer_id (a_fields a)) = Some (a_fields a)"
    and fresh: "a_author_cache a = None" "a_question_cache a = None"
    and on: "answer_question (a_fields a) = question_id (q_fields self)"
    and author: "users s (answer_author (a_fields a)) = Some author"
                "user_id author = answer_author (a_fields a)"
    and auth: "user_id usr = question_author (q_fields self) \<or> is_moderator usr"
    and key: "answer_id (a_fields a) \<in> content_type_ids s"
    and floor: "- 1015 \<le> reputation author"
  shows "\<exists>self' s' row.
           accept_answer now self a usr s = Inr (self', s') \<and>
           questions s' (question_id (q_fields self))
             = Some ((q_fields self)\<lparr>accepted_answer := Some (answer_id (a_fields a)),
                                     is_answered := True\<rparr>) \<and>
           answers s' (answer_id (a_fields a)) = Some ((a_fields a)\<lparr>is_accepted := True\<rparr>) \<and>
           (\<forall>k r. answers s' k = Some r \<and> k \<noteq> answer_id (a_fields a) \<and>
                  (accepted_answer (q_fields self) = Some k \<or>
                   answer_question r = question_id (q_fields self))
                  \<longrightarrow> \<not> is_accepted r) \<and>
           reputation_transactions s' = reputation_transactions s @ [row] \<and>
           rt_user row = answer_author (a_fields a) \<and>
           rt_transaction_type row = ''answer_accepted'' \<and>
           rt_amount row = 15"
proof -
  let ?q = "q_fields self"
  let ?a = "a_fields a"
  have v: "validate_answer_acceptance s a usr = Inr ()"
    using q on auth fresh(2) by (auto simp: validate_answer_acceptance_def get_question_def)
  \<comment> \<open>the previously accepted answer loses its flag\<close>
  define A1 where "A1 = (case accepted_answer ?q of
                           None \<Rightarrow> answers s
                         | Some p \<Rightarrow> (case answers s p of
                                        None \<Rightarrow> answers s
                                      | Some row \<Rightarrow> (answers s)(p \<mapsto> row\<lparr>is_accepted := False\<rparr>)))"
  define s1 where "s1 = s\<lparr>answers := A1\<rparr>"
  have step1: "(case get_accepted_answer s self of
                   Inl e \<Rightarrow> Inl e
                 | Inr None \<Rightarrow> Inr s
                 | Inr (Some prev) \<Rightarrow>
                     Answer_save_is_accepted ((a_fields prev)\<lparr>is_accepted := False\<rparr>) s)
               = Inr s1"
  proof (cases "accepted_answer ?q")
    case None
    then show ?thesis by (simp add: get_accepted_answer_def s1_def A1_def)
  next
    case (Some p)
    with prev obtain row where row: "answers s p = Some row" "answer_id row = p" by blast
    have "Answer_save_is_accepted (row\<lparr>is_accepted := False\<rparr>) s
            = Inr (s\<lparr>answers := (answers s)(p \<mapsto> row\<lparr>is_accepted := False\<rparr>)\<rparr>)"
      using Answer_save_effect [of s "row\<lparr>is_accepted := False\<rparr>" row] row by simp
    then show ?thesis
      using Some row loaded by (simp add: get_accepted_answer_def s1_def A1_def)
  qed
  have A1a: "\<exists>row. A1 (answer_id ?a) = Some row \<and>
                   row\<lparr>is_accepted := True\<rparr> = ?a\<lparr>is_accepted := True\<rparr>"
    using a prev by (auto simp: A1_def split: option.splits)
  then obtain rowa where rowa: "A1 (answer_id ?a) = Some rowa"
    "rowa\<lparr>is_accepted := True\<rparr> = ?a\<lparr>is_accepted := True\<rparr>" by blast
  have A1prev: "\<forall>p r. accepted_answer ?q = Some p \<and> A1 p = Some r \<longrightarrow> \<not> is_accepted r"
    using prev by (auto simp: A1_def split: option.splits)
  \<comment> \<open>the answer gets its flag, every other accepted answer of the question loses it\<close>
  define a1 where "a1 = a\<lparr>a_fields := ?a\<lparr>is_accepted := True\<rparr>\<rparr>"
  define A2 where "A2 = (clear_other_accepted (?a\<lparr>is_accepted := True\<rparr>) A1)
                          (answer_id ?a \<mapsto> ?a\<lparr>is_accepted := True\<rparr>)"
  define s2 where "s2 = s1\<lparr>answers := A2\<rparr>"
  have step2: "Answer_save_is_accepted (a_fields a1) s1 = Inr s2"
    using Answer_save_effect [of s1 "?a\<lparr>is_accepted := True\<rparr>" rowa] rowa
    by (simp add: s1_def s2_def A2_def a1_def)
  have A2others: "\<forall>k r. A2 k = Some r \<and> k \<noteq> answer_id ?a \<and>
                  (accepted_answer ?q = Some k \<or> answer_question r = question_id ?q)
                  \<longrightarrow> \<not> is_accepted r"
    using A1prev on
    by (auto simp: A2_def clear_other_accepted_def split: option.splits if_splits)
  \<comment> \<open>the question is saved\<close>
  define self1 where "self1 = self\<lparr>q_fields := ?q\<lparr>accepted_answer := Some (answer_id (a_fields a1)),
                                   is_answered := True\<rparr>,
                                 q_accepted_answer_cache := Some a1\<rparr>"
  have q2: "questions s2 (question_id (q_fields self1)) = Some ?q"
    using q by (simp add: s2_def s1_def self1_def)
  from Question_save_accepted_effect [of s2 self1 ?q a1 "answer_id ?a" now]
  obtain self2 s3 where step3: "Question_save_accepted now self1 s2 = Inr (self2, s3)"
    and f2: "q_fields self2 = q_fields self1"
    and q3: "questions s3 = (questions s2)(question_id (q_fields self1) \<mapsto>
               ?q\<lparr>accepted_answer := accepted_answer (q_fields self1),
                   is_answered := is_answered (q_fields self1)\<rparr>)"
    and fr3: "users s3 = users s2" "answers s3 = answers s2"
             "reputation_transactions s3 = reputation_transactions s2"
             "content_type_ids s3 = content_type_ids s2"
    using q2 on fresh(2) by (auto simp: self1_def a1_def)
  \<comment> \<open>the author is credited\<close>
  have u3: "users s3 (answer_author ?a) = Some author"
    using author(1) fr3(1) by (simp add: s2_def s1_def)
  have ga: "get_author s3 a1 = Inr author"
    using u3 fresh(1) by (simp add: get_author_def a1_def)
  define t where "t = \<lparr>self_pk = None, self_user = author,
        self_transaction_type = ''answer_accepted'', self_amount = 15,
        self_description = ''Answer accepted for question: '' @ question_title (q_fields self2),
        self_content_type_id = answer_id ?a, self_object_id = answer_id ?a,
        self_balance_after = 0, self_version = 1\<rparr>"
  have tn: "self_pk t = None" and tu: "users s3 (user_id (self_user t)) = Some author"
    and tf: "- 1000 \<le> reputation (self_user t) + self_amount t"
    and tk: "self_content_type_id t \<in> content_type_ids s3"
    using u3 author(2) floor key fr3(4) by (simp_all add: t_def s2_def s1_def)
  from save_new_returns [OF tn tu tf tk] obtain t' s4 where
    step4: "ReputationTransaction_save now t s3 = Inr (t', s4)" by blast
  from save_new [OF step4 tn] obtain row where
    row: "reputation_transactions s4 = reputation_transactions s3 @ [row]"
         "rt_user row = user_id (self_user t)" "rt_amount row = self_amount t"
         "rt_transaction_type row = self_transaction_type t"
         "questions s4 = questions s3" "answers s4 = answers s3"
    by blast
  have create: "ReputationTransaction_objects_create now author ''answer_accepted'' 15
                  (''Answer accepted for question: '' @ question_title (q_fields self2))
                  (answer_id (a_fields a1)) (answer_id (a_fields a1)) s3 = Inr (t', s4)"
    using step4 by (simp add: ReputationTransaction_objects_create_def t_def a1_def)
  have call: "accept_answer now self a usr s = Inr (self2, s4)"
    using v step1 step2 step3 create ga
    by (simp add: accept_answer_def Let_def a1_def [symmetric] self1_def [symmetric])
  have "questions s4 (question_id ?q)
          = Some (?q\<lparr>accepted_answer := Some (answer_id ?a), is_answered := True\<rparr>)"
    using row(5) q3 by (simp add: self1_def a1_def)
  moreover have "answers s4 (answer_id ?a) = Some (?a\<lparr>is_accepted := True\<rparr>)"
    using row(6) fr3(2) by (simp add: s2_def A2_def)
  moreover have "\<forall>k r. answers s4 k = Some r \<and> k \<noteq> answer_id ?a \<and>
                  (accepted_answer ?q = Some k \<or> answer_question r = question_id ?q)
                  \<longrightarrow> \<not> is_accepted r"
    using row(6) fr3(2) A2others by (simp add: s2_def)
  moreover have "reputation_transactions s4 = reputation_transactions s @ [row]"
    using row(1) fr3(3) by (simp add: s2_def s1_def)
  moreover have "rt_user row = answer_author ?a" "rt_transaction_type row = ''answer_accepted''"
    "rt_amount row = 15"
    using row(2,3,4) author(2) by (simp_all add: t_def)
  ultimately show ?thesis using call by blast
qed

lemmas accept_eval =
  accept_answer_def validate_answer_acceptance_def get_question_def get_author_def
  get_accepted_answer_def Answer_save_is_accepted_def clear_other_accepted_def
  Question_save_accepted_def question_answer_accepted_def track_accepted_answer_changes_def
  invalidate_caches_def ReputationTransaction_objects_create_def
  question1_loaded_def question1_def answer1_loaded_def answer1_def answer50_loaded_def
  answer50_def late_db_def alice_def

text \<open>
  C6.  \<open>accept_answer\<close> passes the answer's primary key as the content type of the
  transaction.  Alice accepts bob's answer 50 on her question: the answer is stored and is an
  answer to the question, alice is the question's author, but 50 is not the key of a content
  type, so the transaction cannot be written and the call raises \<open>IntegrityError\<close>; the
  atomic block takes the acceptance back with it.
\<close>

theorem accept_answer_integrity_error:
  "answers late_db 50 = Some answer50 \<and>
   answer_question answer50 = question_id question1 \<and>
   questions late_db 1 = Some question1 \<and>
   user_id alice = question_author question1 \<and>
   users late_db (answer_author answer50) = Some bob \<and>
   answer_id answer50 \<notin> content_type_ids late_db \<and>
   accept_answer ''t1'' question1_loaded answer50_loaded alice late_db = Inl IntegrityError"
  by (simp add: accept_eval ledger_eval)

text \<open>
  C7.  \<open>track_accepted_answer_changes\<close> runs after the row is written and after
  \<open>question_answer_accepted\<close>, so an instance as loaded has no
  \<open>_previous_accepted_answer\<close> when the check is made: alice accepts bob's answer on her
  question, the accepted answer goes from none to that answer, and no notification is
  created.
\<close>

theorem acceptance_not_notified:
  "accepted_answer (q_fields question1_loaded) = None \<and>
   notifications demo_db = [] \<and>
   (case accept_answer ''t1'' question1_loaded answer1_loaded alice demo_db of
      Inl e \<Rightarrow> False
    | Inr (self', s') \<Rightarrow>
        questions s' 1 = Some (question1\<lparr>accepted_answer := Some 1, is_answered := True\<rparr>) \<and>
        notifications s' = [])"
  by (simp add: accept_eval ledger_eval)

section \<open>Properties of the fan-out\<close>

lemma updates_group: "lower ''ReputationTransaction'' @ ''_updates'' = ''reputationtransaction_updates''"
  by code_simp

lemma str_nat_2: "str_nat 2 = ''2''"
  by code_simp

text \<open>
  C5.  Bob connects; his channel joins \<open>notifications_2\<close> and \<open>global_updates\<close>.  A
  transaction of +10 for bob is then saved: his reputation becomes 110, and the announcement
  goes to the group \<open>reputationtransaction_updates\<close>, which no consumer joins, so nothing
  is put on bob's channel.  The event the code sends has the type \<open>realtime_update\<close>, for
  which the consumer has no handler either.
\<close>

theorem reputation_change_not_delivered:
  "(case NotificationConsumer_connect ''t0'' (Some bob) ''chan'' demo_db of
      Inl e \<Rightarrow> False
    | Inr (sent, s1) \<Rightarrow>
        group_members s1 ''notifications_2'' = [''chan''] \<and>
        group_members s1 (lower ''ReputationTransaction'' @ ''_updates'') = [] \<and>
        (case ReputationTransaction_objects_create ''t1'' bob ''answer_upvote'' 10
                ''Answer upvoted'' 1 1 s1 of
           Inl e \<Rightarrow> False
         | Inr (t, s2) \<Rightarrow>
             stored_reputation s2 2 = Some 110 \<and>
             self_balance_after t = 110 \<and>
             filter (\<lambda>cm. fst cm = ''chan'') (delivered s2) = [])) \<and>
   NotificationConsumer_dispatch ''t2''
     [(''type'', JStr ''realtime_update''),
      (''event_type'', JStr ''reputation_changed''),
      (''data'', JObj [(''user_id'', JInt 2), (''new_reputation'', JInt 110),
                       (''change'', JInt 10), (''reason'', JStr ''Answer Upvoted (+10)'')]),
      (''timestamp'', JStr ''t1'')]
     = Inl (ValueError ''No handler for message type realtime_update'')"
  by (simp add: NotificationConsumer_connect_def get_pending_notifications_def
      unread_notifications_def group_add_def updates_group str_nat_2
      ReputationTransaction_objects_create_def ledger_eval NotificationConsumer_dispatch_def)

lemma getitem_Inr:
  "getitem event k f = Inr m \<Longrightarrow> \<exists>v. map_of event k = Some v \<and> f v = Inr m"
  by (auto simp: getitem_def split: option.splits)

text \<open>
  C9 (as the code has it).  Every message the consumers of \<open>realtime.consumers\<close> send,
  the status dictionary of the admin consumer apart, has a \<open>timestamp\<close> entry: the text of
  the clock, or the timestamp of the channel-layer event when the event brings one.  The two
  messages of \<open>notifications.consumers\<close> have no \<open>timestamp\<close> entry.
\<close>

theorem realtime_messages_carry_timestamp:
  assumes "render now ob = Inr m"
  shows "(\<not> in_notifications_module ob \<and> \<not> is_system_status ob \<longrightarrow>
            timestamp_of m = Some (get_or (event_of ob) ''timestamp'' (JStr now))) \<and>
         (in_notifications_module ob \<longrightarrow> timestamp_of m = None)"
  using assms
  by (cases ob)
    (auto simp: timestamp_of_def connection_established_def notification_marked_read_def
      question_subscribed_def heartbeat_response_def send_error_def pending_notifications_def
      new_notification_def reputation_update_handler_def vote_update_def answer_update_def
      question_data_def question_vote_update_def new_answer_def answer_accepted_def
      view_count_update_def recent_activities_def new_activity_def trending_update_def
      system_alert_def performance_warning_def unread_count_message_def
      notification_message_def get_or_def
      dest!: getitem_Inr)

theorem realtime_messages_carry_timestamp_witness:
  "render ''t2'' (RT_reputation_update reputation_event)
     = Inr [(''type'', JStr ''reputation_update''), (''new_reputation'', JInt 110),
            (''change'', JInt 10), (''reason'', JStr ''Answer Upvoted (+10)''),
            (''timestamp'', JStr ''t2'')] \<and>
   \<not> in_notifications_module (RT_reputation_update reputation_event) \<and>
   \<not> is_system_status (RT_reputation_update reputation_event) \<and>
   timestamp_of [(''type'', JStr ''reputation_update''), (''new_reputation'', JInt 110),
                 (''change'', JInt 10), (''reason'', JStr ''Answer Upvoted (+10)''),
                 (''timestamp'', JStr ''t2'')] = Some (JStr ''t2'') \<and>
   in_notifications_module (N_notification_message [(''notification'', JNull)]) \<and>
   render ''t2'' (N_notification_message [(''notification'', JNull)])
     = Inr [(''type'', JStr ''notification''), (''notification'', JNull)] \<and>
   timestamp_of [(''type'', JStr ''notification''), (''notification'', JNull)] = None"
proof -
  have r1: "render ''t2'' (RT_reputation_update reputation_event)
     = Inr [(''type'', JStr ''reputation_update''), (''new_reputation'', JInt 110),
            (''change'', JInt 10), (''reason'', JStr ''Answer Upvoted (+10)''),
            (''timestamp'', JStr ''t2'')]"
    by (simp add: reputation_update_handler_def getitem_def get_or_def reputation_event_def)
  have r2: "render ''t2'' (N_notification_message [(''notification'', JNull)])
     = Inr [(''type'', JStr ''notification''), (''notification'', JNull)]"
    by (simp add: notification_message_def getitem_def)
  show ?thesis
    using r1 r2 realtime_messages_carry_timestamp [OF r1] realtime_messages_carry_timestamp [OF r2]
    by (simp add: get_or_def reputation_event_def)
qed

text \<open>
  The first message a client of \<open>notifications.consumers.NotificationConsumer\<close> receives is
  its unread count, which has no \<open>timestamp\<close> entry.
\<close>

theorem unread_count_counterexample:
  "fst (notifications_connect (Some bob) ''chan'' demo_db) = [unread_count_message 0] \<and>
   render ''t0'' (N_unread_count 0) = Inr (unread_count_message 0) \<and>
   timestamp_of (unread_count_message 0) = None"
  by (simp add: notifications_connect_def get_unread_count_def unread_notifications_def
      group_add_def unread_count_message_def timestamp_of_def demo_db_def Let_def)

end
